theory Spec2Isabelle
  imports Main "HOL-Library.Sublist"
begin

section \<open>JavaScript library operations used by the sources\<close>

text \<open>
  The program is TypeScript on Node. The few library operations it relies on are written
  out here as list functions: \<open>Array.prototype.slice\<close> with one argument,
  \<open>Array.prototype.join\<close>, \<open>String.prototype.endsWith\<close>, \<open>String.prototype.replace\<close>
  with a string pattern (which replaces the first occurrence only), and the decimal
  rendering of a number inside a template literal.
\<close>

definition newline :: string where
  "newline = [CHR 0x0A]"

definition quote :: string where
  "quote = [CHR 0x27]"

text \<open>
  \<open>xs.slice(start)\<close> for an integer \<open>start\<close>: a negative start counts from the end and is
  clamped at the front, a non-negative one is clamped at the length. Since \<open>-0\<close> is \<open>0\<close>,
  \<open>xs.slice(-0)\<close> is the whole array.
\<close>

definition slice :: "int \<Rightarrow> 'a list \<Rightarrow> 'a list" where
  "slice start xs =
     (let len = int (length xs);
          k = (if start < 0 then max (len + start) 0 else min start len)
      in drop (nat k) xs)"

fun join :: "string \<Rightarrow> string list \<Rightarrow> string" where
  "join sep [] = []"
| "join sep [x] = x"
| "join sep (x # y # ys) = x @ sep @ join sep (y # ys)"

definition endsWith :: "string \<Rightarrow> string \<Rightarrow> bool" where
  "endsWith s sfx = suffix sfx s"

text \<open>\<open>s.replace(pat, rep)\<close> with a string pattern: only the first occurrence is replaced.\<close>

fun replace :: "string \<Rightarrow> string \<Rightarrow> string \<Rightarrow> string" where
  "replace pat rep [] = (if pat = [] then rep else [])"
| "replace pat rep (c # cs) =
     (if prefix pat (c # cs) then rep @ drop (length pat) (c # cs)
      else c # replace pat rep cs)"

definition digit_char :: "nat \<Rightarrow> char" where
  "digit_char d =
     (if d = 0 then CHR ''0'' else if d = 1 then CHR ''1'' else if d = 2 then CHR ''2''
      else if d = 3 then CHR ''3'' else if d = 4 then CHR ''4'' else if d = 5 then CHR ''5''
      else if d = 6 then CHR ''6'' else if d = 7 then CHR ''7'' else if d = 8 then CHR ''8''
      else CHR ''9'')"

fun show_nat :: "nat \<Rightarrow> string" where
  "show_nat n = (if n < 10 then [digit_char n] else show_nat (n div 10) @ [digit_char (n mod 10)])"

declare show_nat.simps [simp del]

definition show_int :: "int \<Rightarrow> string" where
  "show_int i = (if i < 0 then CHR ''-'' # show_nat (nat (- i)) else show_nat (nat i))"

section \<open>Data model (types.ts)\<close>

text \<open>
  \<open>ToolConfig\<close>; the fields are \<open>name\<close>, \<open>description\<close>, \<open>command\<close> and the optional
  \<open>daemon\<close> (\<open>None\<close> when the property is absent).
\<close>

record ToolConfig =
  cfg_name :: string
  cfg_description :: string
  cfg_command :: string
  cfg_daemon :: "bool option"

datatype ProcessState = STARTING | RUNNING | STOPPED | FAILED

text \<open>The string value of each enum member, as a template literal prints it.\<close>

fun state_text :: "ProcessState \<Rightarrow> string" where
  "state_text STARTING = ''starting''"
| "state_text RUNNING = ''running''"
| "state_text STOPPED = ''stopped''"
| "state_text FAILED = ''failed''"

record ProcessOutputBuffer =
  stdout :: "string list"
  stderr :: "string list"
  maxLines :: nat

text \<open>
  The part of Node's \<open>ChildProcess\<close> object that the sources read: \<open>pid\<close>, the \<open>killed\<close>
  flag (set when \<open>kill\<close> delivered a signal), \<open>exitCode\<close> (\<open>null\<close>, here \<open>None\<close>, until the
  process exits with a code), and whether the \<open>exit\<close> and \<open>error\<close> listeners of
  \<open>startDaemon\<close> have been attached.
\<close>

record ChildProcess =
  child_pid :: nat
  killed :: bool
  exitCode :: "int option"
  listening :: bool

record RunningProcess =
  name :: string
  process :: ChildProcess
  pid :: nat
  startTime :: int
  state :: ProcessState
  outputBuffer :: ProcessOutputBuffer

record ProcessStatus =
  status_name :: string
  status_pid :: nat
  status_state :: ProcessState
  status_startTime :: int
  uptime :: int
  recentOutput :: "string list"

record ProcessLogs =
  logs_stdout :: "string list"
  logs_stderr :: "string list"

text \<open>The two result shapes: \<open>{success, message}\<close> of the process manager and
  \<open>{success, output}\<close> of the tool executor.\<close>

record pm_result =
  success :: bool
  message :: string

record tool_result =
  tool_success :: bool
  tool_output :: string

section \<open>State of the process manager\<close>

text \<open>
  The \<open>RunningProcess\<close> objects are shared between the \<open>runningProcesses\<close> map and the
  closures of \<open>startDaemon\<close> (which go on using their own object after the map entry
  is gone), so the map holds references into a store of objects. Time is the
  millisecond clock; \<open>setTimeout\<close> callbacks are tasks in a queue with their due time.
  \<open>spawned\<close> and \<open>signals\<close> record the calls of \<open>spawn\<close> and the signals delivered by
  \<open>kill\<close>.
\<close>

type_synonym ref = nat

datatype timer_task = ResumeStart string ref | DeleteEntry string

record pm_state =
  runningProcesses :: "string \<rightharpoonup> ref"
  heap :: "ref \<Rightarrow> RunningProcess"
  next_ref :: ref
  clock :: int
  timers :: "(int \<times> timer_task) list"
  spawned :: "(ref \<times> string \<times> string) list"
  signals :: "(ref \<times> string) list"

text \<open>An \<open>async\<close> function either returns before its first \<open>await\<close> or is suspended
  on the timer of the run it has started.\<close>

datatype 'a async = Done 'a | Awaiting ref

text \<open>
  What the operating system answers. \<open>spawn\<close> throws or returns a child with a pid;
  \<open>child.kill(signal)\<close> delivers the signal (and sets \<open>killed\<close>), finds nothing to
  signal and returns false, or throws; \<open>exec\<close> resolves with stdout and stderr, or
  rejects with an error object carrying optional \<open>stdout\<close>, \<open>stderr\<close>, a \<open>code\<close> that
  is undefined, null, a number or a string, and a \<open>message\<close>.
\<close>

datatype spawn_outcome = SpawnThrows string | Spawned nat

datatype kill_outcome = Delivered | NotDelivered | KillThrows string

datatype error_code = CodeUndefined | CodeNull | CodeNumber int | CodeString string

record exec_error =
  error_stdout :: "string option"
  error_stderr :: "string option"
  error_code :: error_code
  error_message :: string

datatype exec_outcome = Resolved string string | Rejected exec_error

record environment =
  spawn_result :: spawn_outcome
  kill_result :: kill_outcome
  exec_result :: exec_outcome
  toISOString :: "int \<Rightarrow> string"

definition kill :: "kill_outcome \<Rightarrow> ChildProcess \<Rightarrow> string + ChildProcess" where
  "kill ko child =
     (case ko of
        Delivered \<Rightarrow> Inr (child\<lparr>killed := True\<rparr>)
      | NotDelivered \<Rightarrow> Inr child
      | KillThrows err \<Rightarrow> Inl err)"

definition setTimeout :: "timer_task \<Rightarrow> int \<Rightarrow> pm_state \<Rightarrow> pm_state" where
  "setTimeout task delay s = s\<lparr>timers := timers s @ [(clock s + delay, task)]\<rparr>"

definition delete :: "string \<Rightarrow> pm_state \<Rightarrow> pm_state" where
  "delete nm s = s\<lparr>runningProcesses := (runningProcesses s)(nm := None)\<rparr>"

section \<open>Output buffers (processManager.ts)\<close>

definition MAX_OUTPUT_LINES :: nat where
  "MAX_OUTPUT_LINES = 1000"

definition createOutputBuffer :: ProcessOutputBuffer where
  "createOutputBuffer = \<lparr>stdout = [], stderr = [], maxLines = MAX_OUTPUT_LINES\<rparr>"

text \<open>\<open>addToBuffer\<close>: push the line, then shift once if the length exceeds \<open>maxLines\<close>.\<close>

definition addToBuffer :: "string list \<Rightarrow> string \<Rightarrow> nat \<Rightarrow> string list" where
  "addToBuffer buffer line m =
     (let pushed = buffer @ [line]
      in if length pushed > m then tl pushed else pushed)"

text \<open>A sequence of pushes, as \<open>lines.forEach(line => addToBuffer(buffer, line, maxLines))\<close>.\<close>

definition addLines :: "string list \<Rightarrow> string list \<Rightarrow> nat \<Rightarrow> string list" where
  "addLines buffer ls m = foldl (\<lambda>b line. addToBuffer b line m) buffer ls"

text \<open>
  The \<open>data\<close> handlers of the two streams: the chunk is split at newlines, the lines
  that are empty after \<open>trim\<close> are dropped, the others are pushed. A \<open>char\<close> stands for a
  UTF-16 code unit below 256; the white space that \<open>trim\<close> removes in that range is tab,
  line feed, vertical tab, form feed, carriage return, space and no-break space.
\<close>

fun split_on :: "char \<Rightarrow> string \<Rightarrow> string list" where
  "split_on c [] = [[]]"
| "split_on c (x # xs) =
     (if x = c then [] # split_on c xs
      else (case split_on c xs of [] \<Rightarrow> [[x]] | l # ls \<Rightarrow> (x # l) # ls))"

definition is_whitespace :: "char \<Rightarrow> bool" where
  "is_whitespace c \<longleftrightarrow> c \<in> set [CHR '' '', CHR 0x09, CHR 0x0A, CHR 0x0B, CHR 0x0C, CHR 0x0D, CHR 0xA0]"

definition data_lines :: "string \<Rightarrow> string list" where
  "data_lines chunk = filter (\<lambda>line. \<not> list_all is_whitespace line) (split_on (CHR 0x0A) chunk)"

definition stdout_data :: "ref \<Rightarrow> string \<Rightarrow> pm_state \<Rightarrow> pm_state" where
  "stdout_data r chunk s =
     (let proc = heap s r; buf = outputBuffer proc
      in s\<lparr>heap := (heap s)(r := proc\<lparr>outputBuffer :=
              buf\<lparr>stdout := addLines (stdout buf) (data_lines chunk) (maxLines buf)\<rparr>\<rparr>)\<rparr>)"

definition stderr_data :: "ref \<Rightarrow> string \<Rightarrow> pm_state \<Rightarrow> pm_state" where
  "stderr_data r chunk s =
     (let proc = heap s r; buf = outputBuffer proc
      in s\<lparr>heap := (heap s)(r := proc\<lparr>outputBuffer :=
              buf\<lparr>stderr := addLines (stderr buf) (data_lines chunk) (maxLines buf)\<rparr>\<rparr>)\<rparr>)"

section \<open>Daemon lifecycle (processManager.ts)\<close>

text \<open>
  \<open>startDaemon\<close> up to its \<open>await\<close>: the existence check, \<open>spawn\<close>, the new entry in state
  \<open>STARTING\<close>, and the 1000 ms timer on which the rest of the function resumes.
\<close>

definition startDaemon ::
  "spawn_outcome \<Rightarrow> string \<Rightarrow> string \<Rightarrow> string \<Rightarrow> pm_state \<Rightarrow> pm_result async \<times> pm_state" where
  "startDaemon sp nm cmd cwd s =
     (case runningProcesses s nm of
        Some existing \<Rightarrow>
          (Done \<lparr>success = False,
                 message = ''Daemon '' @ quote @ nm @ quote @ '' is already running (PID: ''
                           @ show_nat (pid (heap s existing)) @ '')''\<rparr>, s)
      | None \<Rightarrow>
          (case sp of
             SpawnThrows err \<Rightarrow>
               (Done \<lparr>success = False, message = ''Failed to start daemon: '' @ err\<rparr>, s)
           | Spawned p \<Rightarrow>
               (let r = next_ref s;
                    child = \<lparr>child_pid = p, killed = False, exitCode = None, listening = False\<rparr>;
                    runningProcess = \<lparr>name = nm, process = child, pid = p, startTime = clock s,
                                      state = STARTING, outputBuffer = createOutputBuffer\<rparr>
                in (Awaiting r,
                    setTimeout (ResumeStart nm r) 1000
                      (s\<lparr>runningProcesses := (runningProcesses s)(nm \<mapsto> r),
                         heap := (heap s)(r := runningProcess),
                         next_ref := Suc r,
                         spawned := spawned s @ [(r, cmd, cwd)]\<rparr>)))))"

text \<open>
  \<open>startDaemon\<close> after the \<open>await\<close>: the child of this call is sampled; a dead one has
  the entry of the name deleted, a live one is marked \<open>RUNNING\<close> and gets its \<open>exit\<close>
  and \<open>error\<close> listeners.
\<close>

definition startDaemon_resume :: "string \<Rightarrow> ref \<Rightarrow> pm_state \<Rightarrow> pm_result \<times> pm_state" where
  "startDaemon_resume nm r s =
     (let runningProcess = heap s r; child = process runningProcess
      in if killed child \<or> exitCode child \<noteq> None then
           (let joined = join newline (stderr (outputBuffer runningProcess));
                errorOutput = (if joined \<noteq> [] then joined else ''Process exited immediately'')
            in (\<lparr>success = False,
                 message = ''Error: Daemon failed to start:'' @ newline @ errorOutput\<rparr>,
                delete nm s))
         else
           (\<lparr>success = True,
             message = ''Started daemon '' @ quote @ nm @ quote @ '' (PID: ''
                       @ show_nat (child_pid child) @ '')''\<rparr>,
            s\<lparr>heap := (heap s)(r := runningProcess\<lparr>state := RUNNING,
                                      process := child\<lparr>listening := True\<rparr>\<rparr>)\<rparr>))"

text \<open>The \<open>exit\<close> and \<open>error\<close> listeners attached by \<open>startDaemon\<close>.\<close>

definition exit_listener :: "string \<Rightarrow> int option \<Rightarrow> string option \<Rightarrow> pm_state \<Rightarrow> pm_state" where
  "exit_listener nm code signal s =
     (case runningProcesses s nm of
        None \<Rightarrow> s
      | Some r \<Rightarrow>
          setTimeout (DeleteEntry nm) 5000
            (s\<lparr>heap := (heap s)(r := (heap s r)\<lparr>state :=
                   (if code = Some 0 then STOPPED else FAILED)\<rparr>)\<rparr>))"

definition error_listener :: "string \<Rightarrow> string \<Rightarrow> pm_state \<Rightarrow> pm_state" where
  "error_listener nm err s =
     setTimeout (DeleteEntry nm) 5000
       (case runningProcesses s nm of
          None \<Rightarrow> s
        | Some r \<Rightarrow>
            (let proc = heap s r; buf = outputBuffer proc
             in s\<lparr>heap := (heap s)(r := proc\<lparr>state := FAILED, outputBuffer :=
                     buf\<lparr>stderr := addToBuffer (stderr buf) (''Error: '' @ err) (maxLines buf)\<rparr>\<rparr>)\<rparr>))"

text \<open>
  The process of run \<open>r\<close> terminates with an exit code, or with a signal (then the code
  is \<open>null\<close>): Node stores the code in \<open>exitCode\<close> and emits \<open>exit\<close> to the listeners
  attached so far.
\<close>

definition child_exit :: "ref \<Rightarrow> int option \<Rightarrow> string option \<Rightarrow> pm_state \<Rightarrow> pm_state" where
  "child_exit r code signal s =
     (let proc = heap s r;
          s' = s\<lparr>heap := (heap s)(r := proc\<lparr>process := (process proc)\<lparr>exitCode := code\<rparr>\<rparr>)\<rparr>
      in if listening (process proc) then exit_listener (name proc) code signal s' else s')"

definition stopDaemon :: "kill_outcome \<Rightarrow> string \<Rightarrow> pm_state \<Rightarrow> pm_result \<times> pm_state" where
  "stopDaemon ko nm s =
     (case runningProcesses s nm of
        None \<Rightarrow>
          (\<lparr>success = False, message = ''Daemon '' @ quote @ nm @ quote @ '' is not running''\<rparr>, s)
      | Some r \<Rightarrow>
          (let running = heap s r
           in case kill ko (process running) of
                Inl err \<Rightarrow>
                  (\<lparr>success = False, message = ''Failed to stop daemon: '' @ err\<rparr>, s)
              | Inr child \<Rightarrow>
                  (\<lparr>success = True,
                    message = ''Stopped daemon '' @ quote @ nm @ quote @ '' (PID: ''
                              @ show_nat (pid running) @ '')''\<rparr>,
                   delete nm
                     (s\<lparr>heap := (heap s)(r := running\<lparr>process := child\<rparr>),
                        signals := signals s @
                          (if ko = Delivered then [(r, ''SIGTERM'')] else [])\<rparr>))))"

definition isDaemonRunning :: "string \<Rightarrow> pm_state \<Rightarrow> bool" where
  "isDaemonRunning nm s =
     (case runningProcesses s nm of
        None \<Rightarrow> False
      | Some r \<Rightarrow> state (heap s r) = RUNNING)"

definition getProcessStatus :: "string \<Rightarrow> pm_state \<Rightarrow> ProcessStatus option" where
  "getProcessStatus nm s =
     (case runningProcesses s nm of
        None \<Rightarrow> None
      | Some r \<Rightarrow>
          (let proc = heap s r
           in Some \<lparr>status_name = name proc, status_pid = pid proc, status_state = state proc,
                    status_startTime = startTime proc,
                    uptime = (clock s - startTime proc) div 1000,
                    recentOutput = slice (- 10) (stdout (outputBuffer proc)) @
                      map (\<lambda>line. ''[stderr] '' @ line) (slice (- 5) (stderr (outputBuffer proc)))\<rparr>))"

text \<open>\<open>getProcessLogs(name, lines = 50)\<close>; \<open>None\<close> for \<open>lines\<close> is the omitted argument.\<close>

definition getProcessLogs :: "string \<Rightarrow> int option \<Rightarrow> pm_state \<Rightarrow> ProcessLogs option" where
  "getProcessLogs nm lines_arg s =
     (let n = (case lines_arg of None \<Rightarrow> 50 | Some k \<Rightarrow> k)
      in case runningProcesses s nm of
           None \<Rightarrow> None
         | Some r \<Rightarrow>
             Some \<lparr>logs_stdout = slice (- n) (stdout (outputBuffer (heap s r))),
                   logs_stderr = slice (- n) (stderr (outputBuffer (heap s r)))\<rparr>)"

section \<open>Timers\<close>

text \<open>
  A due timer runs its callback: the rest of a suspended \<open>startDaemon\<close>, or the
  delayed \<open>runningProcesses.delete(name)\<close> of the listeners. \<open>advance d\<close> lets \<open>d\<close>
  milliseconds pass and runs the timers that fall due, earliest first.
\<close>

fun run_task :: "timer_task \<Rightarrow> pm_state \<Rightarrow> pm_state" where
  "run_task (DeleteEntry nm) s = delete nm s"
| "run_task (ResumeStart nm r) s = snd (startDaemon_resume nm r s)"

definition advance :: "int \<Rightarrow> pm_state \<Rightarrow> pm_state" where
  "advance d s =
     (let now = clock s + d;
          due = filter (\<lambda>(t, task). t \<le> now) (timers s);
          rest = filter (\<lambda>(t, task). \<not> t \<le> now) (timers s)
      in (foldl (\<lambda>s' (t, task). run_task task (s'\<lparr>clock := t\<rparr>)) (s\<lparr>timers := rest\<rparr>)
            (sort_key fst due))\<lparr>clock := now\<rparr>)"

text \<open>
  Whether a pending timer task concerns the entry of name \<open>nm\<close> or the object \<open>r\<close>: a
  delayed delete of that name, or the rest of a \<open>startDaemon\<close> for that name or that run.
\<close>

fun touches :: "string \<Rightarrow> ref \<Rightarrow> timer_task \<Rightarrow> bool" where
  "touches nm r (DeleteEntry n) = (n = nm)"
| "touches nm r (ResumeStart n r') = (n = nm \<or> r' = r)"

section \<open>Tool executor\<close>

record tool_args =
  lines :: "int option"

definition ToolExecutor_getProcessStatus :: "(int \<Rightarrow> string) \<Rightarrow> string \<Rightarrow> pm_state \<Rightarrow> tool_result" where
  "ToolExecutor_getProcessStatus isoText daemonName s =
     (case getProcessStatus daemonName s of
        None \<Rightarrow>
          \<lparr>tool_success = False,
           tool_output = ''Daemon '' @ quote @ daemonName @ quote @ '' is not running''\<rparr>
      | Some status \<Rightarrow>
          (let out = ''Daemon: '' @ status_name status @ newline @
                     ''Status: '' @ state_text (status_state status) @ newline @
                     ''PID: '' @ show_nat (status_pid status) @ newline @
                     ''Uptime: '' @ show_int (uptime status) @ '' seconds'' @ newline @
                     ''Started: '' @ isoText (status_startTime status) @ newline
           in \<lparr>tool_success = True,
                tool_output = (if recentOutput status \<noteq> []
                          then out @ newline @ ''Recent output:'' @ newline @
                               join newline (recentOutput status)
                          else out)\<rparr>))"

text \<open>The count in the header of the logs is printed in decimal, as the template literal
  prints an integer of fewer than 22 digits.\<close>

definition ToolExecutor_getProcessLogs :: "string \<Rightarrow> int \<Rightarrow> pm_state \<Rightarrow> tool_result" where
  "ToolExecutor_getProcessLogs daemonName n s =
     (case getProcessLogs daemonName (Some n) s of
        None \<Rightarrow>
          \<lparr>tool_success = False,
           tool_output = ''Daemon '' @ quote @ daemonName @ quote @ '' is not running or has no logs''\<rparr>
      | Some logs \<Rightarrow>
          (let out0 = ''=== Logs for '' @ daemonName @ '' (last '' @ show_int n @ '' lines) ==='' @
                      newline @ newline;
               out1 = (if logs_stdout logs \<noteq> []
                       then out0 @ ''--- STDOUT ---'' @ newline @ join newline (logs_stdout logs) @
                            newline @ newline
                       else out0);
               out2 = (if logs_stderr logs \<noteq> []
                       then out1 @ ''--- STDERR ---'' @ newline @ join newline (logs_stderr logs) @
                            newline
                       else out1);
               out3 = (if logs_stdout logs = [] \<and> logs_stderr logs = []
                       then out2 @ ''No output captured yet.''
                       else out2)
           in \<lparr>tool_success = True, tool_output = out3\<rparr>))"

text \<open>How \<open>${error.code}\<close> prints a code that is not undefined.\<close>

fun code_text :: "error_code \<Rightarrow> string" where
  "code_text CodeUndefined = ''undefined''"
| "code_text CodeNull = ''null''"
| "code_text (CodeNumber n) = show_int n"
| "code_text (CodeString t) = t"

definition truthy :: "string option \<Rightarrow> bool" where
  "truthy v = (case v of None \<Rightarrow> False | Some t \<Rightarrow> t \<noteq> [])"

text \<open>
  The logger of \<open>logger.ts\<close> is made by \<open>winston.createLogger\<close> without a \<open>levels\<close> option, so
  its logging methods are those of the default levels. Calling any other property, as
  \<open>logger.warning(...)\<close> does, throws a \<open>TypeError\<close> with the message given here. The calls
  of \<open>info\<close>, \<open>debug\<close>, \<open>warn\<close> and \<open>error\<close> elsewhere in the sources return and are left out.
\<close>

definition logger_levels :: "string list" where
  "logger_levels = [''error'', ''warn'', ''info'', ''http'', ''verbose'', ''debug'', ''silly'']"

definition logger_call :: "string \<Rightarrow> string + unit" where
  "logger_call level =
     (if level \<in> set logger_levels then Inr ()
      else Inl (''logger.'' @ level @ '' is not a function''))"

text \<open>
  \<open>runCommand\<close>: \<open>Inl\<close> is the message of an exception that leaves the function. The
  \<open>catch\<close> block begins with \<open>logger.warning(...)\<close>; the output it builds afterwards is kept
  as the source has it.
\<close>

definition runCommand :: "exec_outcome \<Rightarrow> string + tool_result" where
  "runCommand ex =
     (case ex of
        Resolved out err \<Rightarrow>
          (let out1 = (if err \<noteq> []
                       then out @ (if err \<noteq> [] then newline @ ''Stderr:'' @ newline @ err else [])
                       else out)
           in Inr \<lparr>tool_success = True,
                    tool_output = (if out1 \<noteq> [] then out1
                                   else ''Command completed successfully'')\<rparr>)
      | Rejected error \<Rightarrow>
          (case logger_call ''warning'' of
             Inl thrown \<Rightarrow> Inl thrown
           | Inr _ \<Rightarrow>
               (let out0 = [];
                    out1 = (if truthy (error_stdout error)
                            then out0 @ the (error_stdout error) else out0);
                    out2 = (if truthy (error_stderr error)
                            then out1 @ (if out1 \<noteq> [] then newline @ the (error_stderr error)
                                         else the (error_stderr error))
                            else out1);
                    out3 = (if error_code error \<noteq> CodeUndefined
                            then ''Command failed with exit code '' @
                                 code_text (error_code error) @ '':'' @ newline @ out2
                            else out2)
                in Inr \<lparr>tool_success = False,
                         tool_output = (if out3 \<noteq> [] then out3
                                        else ''Failed to run command: '' @
                                             error_message error)\<rparr>)))"

text \<open>
  \<open>executeTool\<close>. Without a configuration the reserved suffixes are tried in the
  order of the source; with one, the tool is started as a daemon or run as a command.
  \<open>startDaemon\<close> catches every failure itself; an exception that leaves \<open>runCommand\<close> is
  caught here and its message returned after \<open>Error executing tool:\<close>.
\<close>

definition executeTool ::
  "environment \<Rightarrow> string \<Rightarrow> ToolConfig option \<Rightarrow> string \<Rightarrow> tool_args option \<Rightarrow> pm_state
     \<Rightarrow> tool_result async \<times> pm_state" where
  "executeTool env projectRoot toolConfig toolName args s =
     (case toolConfig of
        None \<Rightarrow>
          if endsWith toolName ''_start'' then
            (Done \<lparr>tool_success = False,
                   tool_output = ''Configuration not found for tool: '' @ toolName\<rparr>, s)
          else if endsWith toolName ''_status'' then
            (let daemonName = replace ''_status'' [] toolName
             in (Done (ToolExecutor_getProcessStatus (toISOString env) daemonName s), s))
          else if endsWith toolName ''_stop'' then
            (let daemonName = replace ''_stop'' [] toolName;
                 (result, s') = stopDaemon (kill_result env) daemonName s
             in (Done \<lparr>tool_success = success result, tool_output = message result\<rparr>, s'))
          else if endsWith toolName ''_logs'' then
            (let daemonName = replace ''_logs'' [] toolName;
                 n = (case args of
                        None \<Rightarrow> 50
                      | Some a \<Rightarrow> (case lines a of
                                     None \<Rightarrow> 50
                                   | Some k \<Rightarrow> if k = 0 then 50 else k))
             in (Done (ToolExecutor_getProcessLogs daemonName n s), s))
          else
            (Done \<lparr>tool_success = False, tool_output = ''Unknown tool: '' @ toolName\<rparr>, s)
      | Some cfg \<Rightarrow>
          (let processName = (if endsWith toolName ''_start''
                              then replace ''_start'' [] toolName else cfg_name cfg)
           in if (case cfg_daemon cfg of None \<Rightarrow> False | Some d \<Rightarrow> d) then
                (case startDaemon (spawn_result env) processName (cfg_command cfg) projectRoot s of
                   (Done result, s') \<Rightarrow>
                     (Done \<lparr>tool_success = success result, tool_output = message result\<rparr>, s')
                 | (Awaiting r, s') \<Rightarrow> (Awaiting r, s'))
              else (case runCommand (exec_result env) of
                      Inr result \<Rightarrow> (Done result, s)
                    | Inl thrown \<Rightarrow>
                        (Done \<lparr>tool_success = False,
                               tool_output = ''Error executing tool: '' @ thrown\<rparr>, s))))"

text \<open>The rest of \<open>executeTool\<close> once the suspended \<open>startDaemon\<close> has resumed.\<close>

definition executeTool_resume :: "string \<Rightarrow> ref \<Rightarrow> pm_state \<Rightarrow> tool_result \<times> pm_state" where
  "executeTool_resume processName r s =
     (let (result, s') = startDaemon_resume processName r s
      in (\<lparr>tool_success = success result, tool_output = message result\<rparr>, s'))"

text \<open>The process manager of a server that has just started.\<close>

definition initial :: pm_state where
  "initial = \<lparr>runningProcesses = Map.empty,
              heap = (\<lambda>r. \<lparr>name = [], process = \<lparr>child_pid = 0, killed = False, exitCode = None,
                                                 listening = False\<rparr>,
                           pid = 0, startTime = 0, state = STARTING,
                           outputBuffer = createOutputBuffer\<rparr>),
              next_ref = 0, clock = 0, timers = [], spawned = [], signals = []\<rparr>"

section \<open>Example runs\<close>

text \<open>A daemon \<open>web\<close> started on a fresh server, and the same daemon one second later.\<close>

definition web_started :: pm_state where
  "web_started = snd (startDaemon (Spawned 4242) ''web'' ''npm run dev'' ''/srv'' initial)"

definition web_running :: pm_state where
  "web_running = advance 1000 web_started"

text \<open>A daemon \<open>api\<close> whose command is not found: the shell reports on stderr and exits
  with code 127 inside the liveness window.\<close>

definition api_started :: pm_state where
  "api_started = snd (startDaemon (Spawned 5151) ''api'' ''nope --serve'' ''/srv'' initial)"

definition api_exited :: pm_state where
  "api_exited = child_exit 0 (Some 127) None
     (stderr_data 0 (''sh: 1: nope: not found'' @ newline) api_started)"

text \<open>The running daemon \<open>web\<close> exits with code 0.\<close>

definition web_stopped :: pm_state where
  "web_stopped = child_exit 0 (Some 0) None web_running"

text \<open>The daemon \<open>web\<close> after it has written two lines to stdout.\<close>

definition web_logged :: pm_state where
  "web_logged = stdout_data 0 (''listening on 3000'' @ newline @ ''ready'' @ newline) web_running"

text \<open>An environment, and two tool configurations of the kind the README shows.\<close>

definition example_env :: environment where
  "example_env = \<lparr>spawn_result = Spawned 4242, kill_result = Delivered,
                    exec_result = Resolved ''On branch main'' [],
                    toISOString = (\<lambda>t. ''1970-01-01T00:00:00.000Z'')\<rparr>"

definition git_status_tool :: ToolConfig where
  "git_status_tool = \<lparr>cfg_name = ''git_status'', cfg_description = ''Show git repository status'',
                        cfg_command = ''git status'', cfg_daemon = Some False\<rparr>"

definition web_tool :: ToolConfig where
  "web_tool = \<lparr>cfg_name = ''web'', cfg_description = ''Development server'',
                 cfg_command = ''npm run dev'', cfg_daemon = Some True\<rparr>"

text \<open>A one-shot tool of the README, and a run of it in which the command writes to both
  streams and exits with code 2.\<close>

definition build_tool :: ToolConfig where
  "build_tool = \<lparr>cfg_name = ''build_project'', cfg_description = ''Build the project'',
                   cfg_command = ''npm run build'', cfg_daemon = Some False\<rparr>"

definition build_failed :: exec_error where
  "build_failed = \<lparr>error_stdout = Some ''compiling'', error_stderr = Some ''error TS2304'',
                     error_code = CodeNumber 2,
                     error_message = ''Command failed: npm run build''\<rparr>"

definition failing_env :: environment where
  "failing_env = example_env\<lparr>exec_result := Rejected build_failed\<rparr>"

text \<open>
  A daemon \<open>sig\<close> whose shell kills itself with \<open>SIGKILL\<close> 200 ms after the start: the
  child ends by a signal, so Node reports the exit code \<open>null\<close>. \<open>sig_sampled\<close> is the
  state once the liveness window of 1000 ms has run out.
\<close>

definition sig_started :: pm_state where
  "sig_started = snd (startDaemon (Spawned 3426) ''sig'' ''kill -9 $$'' ''/srv'' initial)"

definition sig_dead :: pm_state where
  "sig_dead = child_exit 0 None (Some ''SIGKILL'') (advance 200 sig_started)"

definition sig_sampled :: pm_state where
  "sig_sampled = advance 800 sig_dead"

text \<open>
  The daemon \<open>web\<close> run twice. The first run exits with code 0 at 1500 ms and is stopped at
  2000 ms, while its entry is in the grace delay (the process is gone, so \<open>kill\<close> delivers
  nothing). The second run is started at 2100 ms, is running from 3100 ms and exits with
  code 0 at 4000 ms.
\<close>

definition first_exited :: pm_state where
  "first_exited = child_exit 0 (Some 0) None (advance 500 web_running)"

definition first_stopped :: pm_state where
  "first_stopped = snd (stopDaemon NotDelivered ''web'' (advance 500 first_exited))"

definition second_started :: pm_state where
  "second_started =
     snd (startDaemon (Spawned 4343) ''web'' ''npm run dev'' ''/srv'' (advance 100 first_stopped))"

definition second_running :: pm_state where
  "second_running = advance 1000 second_started"

definition second_exited :: pm_state where
  "second_exited = child_exit 1 (Some 0) None (advance 900 second_running)"

section \<open>Output buffer: bounded FIFO\<close>

lemma addLines_snoc:
  "addLines buffer (ls @ [l]) m = addToBuffer (addLines buffer ls m) l m"
  by (simp add: addLines_def)

lemma tl_drop_snoc:
  assumes "m \<le> length xs"
  shows "tl (drop (length xs - m) xs @ [l]) = drop (Suc (length xs) - m) (xs @ [l])"
proof (cases "m = 0")
  case True
  then show ?thesis by simp
next
  case False
  with assms have lt: "length xs - m < length xs" by arith
  then have ne: "drop (length xs - m) xs \<noteq> []" by simp
  have suc: "Suc (length xs) - m = Suc (length xs - m)"
    using assms by arith
  have "tl (drop (length xs - m) xs @ [l]) = tl (drop (length xs - m) xs) @ [l]"
    using ne by (cases "drop (length xs - m) xs") simp_all
  also have "tl (drop (length xs - m) xs) = drop (Suc (length xs - m)) xs"
    by (simp add: drop_Suc tl_drop)
  finally show ?thesis
    using lt by (simp add: suc)
qed

lemma addLines_empty_eq:
  "addLines [] ls m = drop (length ls - m) ls"
proof (induction ls rule: rev_induct)
  case Nil
  then show ?case by (simp add: addLines_def)
next
  case (snoc l ls)
  show ?case
  proof (cases "length ls < m")
    case True
    then show ?thesis
      by (simp add: addLines_snoc snoc.IH addToBuffer_def)
  next
    case False
    then have side: "m \<le> length ls" by simp
    then have over: "length (drop (length ls - m) ls @ [l]) > m"
      by simp
    show ?thesis
      using over tl_drop_snoc [OF side, of l]
      by (simp add: addLines_snoc snoc.IH addToBuffer_def Let_def)
  qed
qed

lemma addLines_empty_length:
  "length (addLines [] ls m) = min (length ls) m"
  by (simp add: addLines_empty_eq)

text \<open>
  C2. Starting from the empty buffer of a new run, after pushing any sequence of more than
  \<open>maxLines\<close> ls the buffer holds exactly the last \<open>maxLines\<close> of them in push order
  (a sequence that fits is kept whole), and after every intermediate push the buffer
  holds at most \<open>maxLines\<close> ls; a new run's buffers have \<open>maxLines = 1000\<close>.
\<close>

theorem addToBuffer_keeps_last_maxLines:
  "(length ls > m \<longrightarrow>
      addLines [] ls m = drop (length ls - m) ls \<and>
      length (addLines [] ls m) = m) \<and>
   (length ls \<le> m \<longrightarrow> addLines [] ls m = ls) \<and>
   (\<forall>k \<le> length ls. length (addLines [] (take k ls) m) \<le> m) \<and>
   (length buffer < m \<longrightarrow> addToBuffer buffer l m = buffer @ [l]) \<and>
   (length buffer = m \<and> 0 < m \<longrightarrow> addToBuffer buffer l m = tl buffer @ [l]) \<and>
   stdout createOutputBuffer = [] \<and> stderr createOutputBuffer = [] \<and>
   maxLines createOutputBuffer = 1000"
proof -
  have "\<forall>k \<le> length ls. length (addLines [] (take k ls) m) \<le> m"
    by (simp add: addLines_empty_length)
  moreover have "length buffer = m \<and> 0 < m \<longrightarrow> addToBuffer buffer l m = tl buffer @ [l]"
    by (cases buffer) (auto simp add: addToBuffer_def)
  ultimately show ?thesis
    by (simp add: addLines_empty_eq addToBuffer_def createOutputBuffer_def MAX_OUTPUT_LINES_def)
qed

theorem addToBuffer_keeps_last_maxLines_witness:
  "length [''a'', ''b'', ''c'', ''d''] > (2::nat) \<and>
   addLines [] [''a'', ''b'', ''c'', ''d''] 2 = [''c'', ''d''] \<and>
   length (addLines [] (take 3 [''a'', ''b'', ''c'', ''d'']) 2) \<le> 2"
proof -
  have k: "(3::nat) \<le> length [''a'', ''b'', ''c'', ''d'']" by simp
  from addToBuffer_keeps_last_maxLines [of 2 "[''a'', ''b'', ''c'', ''d'']" "[]" "[]"]
  have a: "length [''a'', ''b'', ''c'', ''d''] > (2::nat) \<longrightarrow>
        addLines [] [''a'', ''b'', ''c'', ''d''] 2 =
          drop (length [''a'', ''b'', ''c'', ''d''] - 2) [''a'', ''b'', ''c'', ''d'']"
    and b: "\<forall>k \<le> length [''a'', ''b'', ''c'', ''d''].
        length (addLines [] (take k [''a'', ''b'', ''c'', ''d'']) 2) \<le> 2"
    by blast+
  from a have "addLines [] [''a'', ''b'', ''c'', ''d''] 2 = [''c'', ''d'']" by simp
  moreover from b k have "length (addLines [] (take 3 [''a'', ''b'', ''c'', ''d'']) 2) \<le> 2"
    by blast
  ultimately show ?thesis by simp
qed

section \<open>Lifecycle: start and stop\<close>

lemma web_started_entry:
  "runningProcesses web_started ''web'' = Some 0"
  "timers web_started = [(1000, ResumeStart ''web'' 0)]"
  "clock web_started = 0"
  "heap web_started 0 = \<lparr>name = ''web'', process = \<lparr>child_pid = 4242, killed = False, exitCode = None, listening = False\<rparr>, pid = 4242, startTime = 0,
                                      state = STARTING, outputBuffer = createOutputBuffer\<rparr>"
  by (simp_all add: web_started_def startDaemon_def initial_def setTimeout_def Let_def)

lemma web_running_entry:
  "runningProcesses web_running ''web'' = Some 0"
  "timers web_running = []"
  "clock web_running = 1000"
  "heap web_running 0 = \<lparr>name = ''web'', process = \<lparr>child_pid = 4242, killed = False, exitCode = None, listening = True\<rparr>, pid = 4242, startTime = 0,
                                      state = RUNNING, outputBuffer = createOutputBuffer\<rparr>"
  by (simp_all add: web_running_def advance_def web_started_entry startDaemon_resume_def Let_def)

lemma show_4242: "show_nat 4242 = ''4242''"
  by (simp add: show_nat.simps digit_char_def)

text \<open>
  C1. When the registry holds a live entry (\<open>STARTING\<close> or \<open>RUNNING\<close>) for the name, with
  pid \<open>p\<close>, \<open>startDaemon\<close> returns at once with \<open>success = false\<close> and a message that
  names \<open>p\<close>, and the whole state is as before: the entry, its state, its buffers and its
  process, with nothing spawned and no timer set.
\<close>

theorem startDaemon_live_entry_rejected:
  assumes "runningProcesses s nm = Some r"
    and "state (heap s r) = STARTING \<or> state (heap s r) = RUNNING"
    and "pid (heap s r) = p"
  shows "startDaemon sp nm cmd cwd s =
           (Done \<lparr>success = False,
                  message = ''Daemon '' @ quote @ nm @ quote @ '' is already running (PID: ''
                            @ show_nat p @ '')''\<rparr>, s)"
  using assms by (simp add: startDaemon_def)

theorem startDaemon_live_entry_rejected_witness:
  "runningProcesses web_running ''web'' = Some 0 \<and>
   state (heap web_running 0) = RUNNING \<and> pid (heap web_running 0) = 4242 \<and>
   startDaemon (Spawned 777) ''web'' ''npm run dev'' ''/srv'' web_running =
     (Done \<lparr>success = False,
            message = ''Daemon '' @ quote @ ''web'' @ quote @ '' is already running (PID: 4242)''\<rparr>,
      web_running)"
  using startDaemon_live_entry_rejected [of web_running "''web''" 0 4242 "Spawned 777" "''npm run dev''" "''/srv''"]
  by (simp add: web_running_entry show_4242)


lemma delete_absent: "runningProcesses s nm = None \<Longrightarrow> delete nm s = s"
  by (simp add: delete_def fun_upd_idem)

lemma lookup_after_delete:
  "runningProcesses (delete nm s) nm = None"
  "n' \<noteq> nm \<Longrightarrow> runningProcesses (delete nm s) n' = runningProcesses s n'"
  by (simp_all add: delete_def)

lemma stopDaemon_absent:
  "runningProcesses s nm = None \<Longrightarrow>
   stopDaemon ko nm s =
     (\<lparr>success = False, message = ''Daemon '' @ quote @ nm @ quote @ '' is not running''\<rparr>, s)"
  by (simp add: stopDaemon_def)

lemma stopDaemon_present:
  assumes "runningProcesses s nm = Some r" and "ko = Delivered \<or> ko = NotDelivered"
  shows "stopDaemon ko nm s =
     (\<lparr>success = True,
       message = ''Stopped daemon '' @ quote @ nm @ quote @ '' (PID: ''
                 @ show_nat (pid (heap s r)) @ '')''\<rparr>,
      delete nm
        (s\<lparr>heap := (heap s)(r := (heap s r)\<lparr>process :=
                (process (heap s r))\<lparr>killed := (ko = Delivered \<or> killed (process (heap s r)))\<rparr>\<rparr>),
           signals := signals s @ (if ko = Delivered then [(r, ''SIGTERM'')] else [])\<rparr>))"
  using assms by (auto simp add: stopDaemon_def kill_def Let_def)

lemma stopDaemon_throws:
  "runningProcesses s nm = Some r \<Longrightarrow>
   stopDaemon (KillThrows err) nm s =
     (\<lparr>success = False, message = ''Failed to stop daemon: '' @ err\<rparr>, s)"
  by (simp add: stopDaemon_def kill_def)

text \<open>
  C3. \<open>stopDaemon\<close> on a name without an entry fails with the "not running" message and
  changes nothing. On a name with an entry, when \<open>kill\<close> returns, it succeeds and the entry
  is gone from the registry in the state it returns (no timer is involved, other names
  keep their entries); a delivered signal is a \<open>SIGTERM\<close> to the child of that entry.
  Status and logs queries on the resulting state report not-found, as they do after
  every \<open>stopDaemon\<close> that reports success, and the later delayed
  removal by the exit listener, as the listener itself, leaves that state as it is.
  Deleting a name that has no entry is a no-op.
\<close>

theorem stopDaemon_removes_entry_synchronously:
  "(runningProcesses s nm = None \<longrightarrow>
      stopDaemon ko nm s =
        (\<lparr>success = False, message = ''Daemon '' @ quote @ nm @ quote @ '' is not running''\<rparr>, s)) \<and>
   (runningProcesses s nm = Some r \<and> (ko = Delivered \<or> ko = NotDelivered) \<longrightarrow>
      success (fst (stopDaemon ko nm s)) \<and>
      runningProcesses (snd (stopDaemon ko nm s)) nm = None \<and>
      (\<forall>n'. n' \<noteq> nm \<longrightarrow>
         runningProcesses (snd (stopDaemon ko nm s)) n' = runningProcesses s n') \<and>
      timers (snd (stopDaemon ko nm s)) = timers s \<and>
      (ko = Delivered \<longrightarrow>
         signals (snd (stopDaemon ko nm s)) = signals s @ [(r, ''SIGTERM'')] \<and>
         killed (process (heap (snd (stopDaemon ko nm s)) r))) \<and>
      getProcessStatus nm (snd (stopDaemon ko nm s)) = None \<and>
      getProcessLogs nm k (snd (stopDaemon ko nm s)) = None \<and>
      \<not> tool_success (ToolExecutor_getProcessStatus isoText nm (snd (stopDaemon ko nm s))) \<and>
      \<not> tool_success (ToolExecutor_getProcessLogs nm n (snd (stopDaemon ko nm s))) \<and>
      run_task (DeleteEntry nm) (snd (stopDaemon ko nm s)) = snd (stopDaemon ko nm s) \<and>
      exit_listener nm code signal (snd (stopDaemon ko nm s)) = snd (stopDaemon ko nm s)) \<and>
   (success (fst (stopDaemon ko nm s)) \<longrightarrow>
      getProcessStatus nm (snd (stopDaemon ko nm s)) = None \<and>
      getProcessLogs nm k (snd (stopDaemon ko nm s)) = None) \<and>
   (runningProcesses s nm = None \<longrightarrow> run_task (DeleteEntry nm) s = s)"
  (is "?absent \<and> (?present \<longrightarrow> ?stopped) \<and> ?after \<and> ?idem")
proof -
  have 1: ?absent
    by (simp add: stopDaemon_absent)
  have 3: ?idem
    by (simp add: delete_absent)
  have 2: ?stopped if a: ?present
  proof -
    define s' where "s' = snd (stopDaemon ko nm s)"
    have eq: "s' = delete nm
        (s\<lparr>heap := (heap s)(r := (heap s r)\<lparr>process :=
                (process (heap s r))\<lparr>killed := (ko = Delivered \<or> killed (process (heap s r)))\<rparr>\<rparr>),
           signals := signals s @ (if ko = Delivered then [(r, ''SIGTERM'')] else [])\<rparr>)"
      using a by (simp add: s'_def stopDaemon_present)
    have gone: "runningProcesses s' nm = None"
      by (simp add: eq lookup_after_delete)
    have f1: "success (fst (stopDaemon ko nm s))"
      using a by (simp add: stopDaemon_present)
    have f2: "\<forall>n'. n' \<noteq> nm \<longrightarrow> runningProcesses s' n' = runningProcesses s n'"
      by (simp add: eq delete_def)
    have f3: "timers s' = timers s"
      by (simp add: eq delete_def)
    have f4: "ko = Delivered \<longrightarrow>
         signals s' = signals s @ [(r, ''SIGTERM'')] \<and> killed (process (heap s' r))"
      by (simp add: eq delete_def)
    have f5: "getProcessStatus nm s' = None"
      using gone by (simp add: getProcessStatus_def)
    have f6: "getProcessLogs nm k s' = None"
      using gone by (simp add: getProcessLogs_def)
    have f7: "\<not> tool_success (ToolExecutor_getProcessStatus isoText nm s')"
      using gone by (simp add: ToolExecutor_getProcessStatus_def getProcessStatus_def)
    have f8: "\<not> tool_success (ToolExecutor_getProcessLogs nm n s')"
      using gone by (simp add: ToolExecutor_getProcessLogs_def getProcessLogs_def)
    have f9: "run_task (DeleteEntry nm) s' = s'"
      using gone by (simp add: delete_absent)
    have f10: "exit_listener nm code signal s' = s'"
      using gone by (simp add: exit_listener_def)
    show ?thesis
      unfolding s'_def [symmetric]
      using f1 gone f2 f3 f4 f5 f6 f7 f8 f9 f10 by blast
  qed
  have 4: ?after
  proof (cases "runningProcesses s nm")
    case None
    then show ?thesis
      by (simp add: stopDaemon_absent)
  next
    case (Some r')
    show ?thesis
    proof (cases ko)
      case (KillThrows err)
      with Some show ?thesis
        by (simp add: stopDaemon_throws)
    qed (use Some in \<open>simp_all add: stopDaemon_present lookup_after_delete
          getProcessStatus_def getProcessLogs_def\<close>)
  qed
  from 1 2 3 4 show ?thesis by blast
qed

theorem stopDaemon_removes_entry_synchronously_witness:
  "runningProcesses initial ''web'' = None \<and>
   stopDaemon Delivered ''web'' initial =
     (\<lparr>success = False, message = ''Daemon '' @ quote @ ''web'' @ quote @ '' is not running''\<rparr>,
      initial) \<and>
   run_task (DeleteEntry ''web'') initial = initial \<and>
   runningProcesses web_running ''web'' = Some 0 \<and>
   success (fst (stopDaemon Delivered ''web'' web_running)) \<and>
   signals (snd (stopDaemon Delivered ''web'' web_running)) = [(0, ''SIGTERM'')] \<and>
   getProcessStatus ''web'' (snd (stopDaemon Delivered ''web'' web_running)) = None \<and>
   getProcessLogs ''web'' (Some 50) (snd (stopDaemon Delivered ''web'' web_running)) = None"
proof -
  have absent: "runningProcesses initial ''web'' = None"
    by (simp add: initial_def)
  have present: "runningProcesses web_running ''web'' = Some 0"
    by (simp add: web_running_entry)
  have sig: "signals web_running = []"
    by (simp add: web_running_def advance_def web_started_entry startDaemon_resume_def Let_def
        web_started_def startDaemon_def initial_def setTimeout_def)
  show ?thesis
    using stopDaemon_removes_entry_synchronously [of initial "''web''" Delivered 0 "Some 50"]
      stopDaemon_removes_entry_synchronously [of web_running "''web''" Delivered 0 "Some 50"]
      absent present sig
    by simp
qed

text \<open>
  C10. When \<open>kill\<close> throws inside \<open>stopDaemon\<close> for a name with an entry, the call returns
  \<open>success = false\<close> and the state is unchanged: the entry is still in the registry with
  the same object, so status, logs and a further stop still find it.
\<close>

theorem stopDaemon_kill_throws_keeps_entry:
  assumes "runningProcesses s nm = Some r"
  shows "stopDaemon (KillThrows err) nm s =
           (\<lparr>success = False, message = ''Failed to stop daemon: '' @ err\<rparr>, s) \<and>
         runningProcesses (snd (stopDaemon (KillThrows err) nm s)) nm = Some r \<and>
         heap (snd (stopDaemon (KillThrows err) nm s)) r = heap s r \<and>
         getProcessStatus nm (snd (stopDaemon (KillThrows err) nm s)) = getProcessStatus nm s \<and>
         getProcessStatus nm (snd (stopDaemon (KillThrows err) nm s)) \<noteq> None \<and>
         getProcessLogs nm k (snd (stopDaemon (KillThrows err) nm s)) \<noteq> None \<and>
         fst (stopDaemon ko nm (snd (stopDaemon (KillThrows err) nm s))) \<noteq>
           \<lparr>success = False, message = ''Daemon '' @ quote @ nm @ quote @ '' is not running''\<rparr>"
proof -
  have same: "stopDaemon (KillThrows err) nm s =
           (\<lparr>success = False, message = ''Failed to stop daemon: '' @ err\<rparr>, s)"
    using assms by (rule stopDaemon_throws)
  have found: "fst (stopDaemon ko nm s) \<noteq>
           \<lparr>success = False, message = ''Daemon '' @ quote @ nm @ quote @ '' is not running''\<rparr>"
  proof (cases ko)
    case (KillThrows e)
    then show ?thesis
      using assms by (simp add: stopDaemon_throws)
  qed (use assms in \<open>simp_all add: stopDaemon_present\<close>)
  show ?thesis
    using assms found by (simp add: same getProcessStatus_def getProcessLogs_def Let_def)
qed

theorem stopDaemon_kill_throws_keeps_entry_witness:
  "runningProcesses web_running ''web'' = Some 0 \<and>
   stopDaemon (KillThrows ''kill EINVAL'') ''web'' web_running =
     (\<lparr>success = False, message = ''Failed to stop daemon: kill EINVAL''\<rparr>, web_running) \<and>
   getProcessStatus ''web'' (snd (stopDaemon (KillThrows ''kill EINVAL'') ''web'' web_running)) \<noteq> None"
  using stopDaemon_kill_throws_keeps_entry [of web_running "''web''" 0 "''kill EINVAL''" "Some 50" Delivered]
  by (simp add: web_running_entry getProcessStatus_def)

section \<open>Lifecycle: the liveness window\<close>

lemma join_nonempty:
  "xs \<noteq> [] \<Longrightarrow> \<forall>l\<in>set xs. l \<noteq> [] \<Longrightarrow> join sep xs \<noteq> []"
  by (cases "(sep, xs)" rule: join.cases) auto

lemma startDaemon_fresh:
  assumes "runningProcesses s nm = None"
  shows "startDaemon (Spawned p) nm cmd cwd s =
     (Awaiting (next_ref s),
      s\<lparr>runningProcesses := (runningProcesses s)(nm \<mapsto> next_ref s),
        heap := (heap s)(next_ref s :=
          \<lparr>name = nm, process = \<lparr>child_pid = p, killed = False, exitCode = None,
                                  listening = False\<rparr>,
           pid = p, startTime = clock s, state = STARTING, outputBuffer = createOutputBuffer\<rparr>),
        next_ref := Suc (next_ref s),
        spawned := spawned s @ [(next_ref s, cmd, cwd)],
        timers := timers s @ [(clock s + 1000, ResumeStart nm (next_ref s))]\<rparr>)"
  using assms by (simp add: startDaemon_def setTimeout_def Let_def)

lemma startDaemon_resume_dead:
  assumes "killed (process (heap s r)) \<or> exitCode (process (heap s r)) \<noteq> None"
  shows "startDaemon_resume nm r s =
     (\<lparr>success = False,
       message = ''Error: Daemon failed to start:'' @ newline @
         (if join newline (stderr (outputBuffer (heap s r))) \<noteq> []
          then join newline (stderr (outputBuffer (heap s r)))
          else ''Process exited immediately'')\<rparr>,
      delete nm s)"
  using assms by (auto simp add: startDaemon_resume_def Let_def)

text \<open>
  A \<open>startDaemon\<close> that finds no entry suspends on a timer due 1000 ms later, whose
  task is the rest of that call. A child that exits with a code has that code as its
  \<open>exitCode\<close> from then on. When the child of the call is sampled and has its \<open>killed\<close>
  flag set or an exit code, the call returns \<open>success = false\<close>; the diagnostic
  is the captured stderr lines joined by newlines, or \<open>Process exited immediately\<close> when
  none were captured; the entry of the name is removed, so that a status query right
  afterwards reports not-found.
\<close>

lemma sampled_dead_child_fails:
  "(runningProcesses s0 nm = None \<longrightarrow>
      fst (startDaemon (Spawned p) nm cmd cwd s0) = Awaiting (next_ref s0) \<and>
      timers (snd (startDaemon (Spawned p) nm cmd cwd s0)) =
        timers s0 @ [(clock s0 + 1000, ResumeStart nm (next_ref s0))]) \<and>
   run_task (ResumeStart nm r) s = snd (startDaemon_resume nm r s) \<and>
   exitCode (process (heap (child_exit r (Some c) signal s) r)) = Some c \<and>
   (killed (process (heap s r)) \<or> exitCode (process (heap s r)) \<noteq> None \<longrightarrow>
      \<not> success (fst (startDaemon_resume nm r s)) \<and>
      message (fst (startDaemon_resume nm r s)) =
        ''Error: Daemon failed to start:'' @ newline @
          (if join newline (stderr (outputBuffer (heap s r))) \<noteq> []
           then join newline (stderr (outputBuffer (heap s r)))
           else ''Process exited immediately'') \<and>
      (stderr (outputBuffer (heap s r)) = [] \<longrightarrow>
         message (fst (startDaemon_resume nm r s)) =
           ''Error: Daemon failed to start:'' @ newline @ ''Process exited immediately'') \<and>
      (stderr (outputBuffer (heap s r)) \<noteq> [] \<and>
       (\<forall>l \<in> set (stderr (outputBuffer (heap s r))). l \<noteq> []) \<longrightarrow>
         message (fst (startDaemon_resume nm r s)) =
           ''Error: Daemon failed to start:'' @ newline @
             join newline (stderr (outputBuffer (heap s r)))) \<and>
      runningProcesses (snd (startDaemon_resume nm r s)) nm = None \<and>
      getProcessStatus nm (snd (startDaemon_resume nm r s)) = None \<and>
      ToolExecutor_getProcessStatus isoText nm (snd (startDaemon_resume nm r s)) =
        \<lparr>tool_success = False,
         tool_output = ''Daemon '' @ quote @ nm @ quote @ '' is not running''\<rparr>)"
  (is "(?fresh \<longrightarrow> ?suspended) \<and> ?timer \<and> ?exited \<and> (?dead \<longrightarrow> ?failed)")
proof -
  have 1: ?suspended if ?fresh
    using that by (simp add: startDaemon_fresh)
  have 2: ?timer
    by simp
  have 4: ?exited
    by (simp add: child_exit_def exit_listener_def setTimeout_def Let_def
        split: option.split)
  have 3: ?failed if d: ?dead
  proof -
    have gone: "runningProcesses (delete nm s) nm = None"
      by (simp add: delete_def)
    have nonempty: "join newline (stderr (outputBuffer (heap s r))) \<noteq> []"
      if "stderr (outputBuffer (heap s r)) \<noteq> [] \<and>
          (\<forall>l \<in> set (stderr (outputBuffer (heap s r))). l \<noteq> [])"
      using that by (simp add: join_nonempty)
    show ?thesis
      using gone nonempty
      by (simp add: startDaemon_resume_dead [OF d] getProcessStatus_def
          ToolExecutor_getProcessStatus_def)
  qed
  from 1 2 3 4 show ?thesis by blast
qed

lemma api_exited_facts:
  "exitCode (process (heap api_exited 0)) = Some 127"
  "stderr (outputBuffer (heap api_exited 0)) = [''sh: 1: nope: not found'']"
  "runningProcesses api_exited ''api'' = Some 0"
  "state (heap api_exited 0) = STARTING"
  by (simp_all add: api_exited_def api_started_def child_exit_def stderr_data_def
      startDaemon_def initial_def setTimeout_def Let_def createOutputBuffer_def
      MAX_OUTPUT_LINES_def data_lines_def newline_def is_whitespace_def addLines_def
      addToBuffer_def)

lemma sampled_dead_child_fails_example:
  "runningProcesses initial ''api'' = None \<and>
   fst (startDaemon (Spawned 5151) ''api'' ''nope --serve'' ''/srv'' initial) = Awaiting 0 \<and>
   timers api_started = [(1000, ResumeStart ''api'' 0)] \<and>
   exitCode (process (heap api_exited 0)) = Some 127 \<and>
   fst (startDaemon_resume ''api'' 0 api_exited) =
     \<lparr>success = False,
      message = ''Error: Daemon failed to start:'' @ newline @ ''sh: 1: nope: not found''\<rparr> \<and>
   getProcessStatus ''api'' (snd (startDaemon_resume ''api'' 0 api_exited)) = None"
proof -
  have fresh: "runningProcesses initial ''api'' = None" "next_ref initial = 0"
    "clock initial = 0" "timers initial = []"
    by (simp_all add: initial_def)
  show ?thesis
    using sampled_dead_child_fails
      [where ?s0.0 = initial and nm = "''api''" and p = 5151 and cmd = "''nope --serve''"
        and cwd = "''/srv''" and r = 0 and s = api_exited]
      fresh
    by (simp add: api_exited_facts api_started_def)
qed


lemma sig_started_facts:
  "runningProcesses sig_started ''sig'' = Some 0"
  "timers sig_started = [(1000, ResumeStart ''sig'' 0)]"
  "clock sig_started = 0"
  "heap sig_started 0 =
     \<lparr>name = ''sig'', process = \<lparr>child_pid = 3426, killed = False, exitCode = None,
                                   listening = False\<rparr>,
      pid = 3426, startTime = 0, state = STARTING, outputBuffer = createOutputBuffer\<rparr>"
  by (simp_all add: sig_started_def startDaemon_def initial_def setTimeout_def Let_def)

lemma sig_dead_facts:
  "runningProcesses sig_dead ''sig'' = Some 0"
  "timers sig_dead = [(1000, ResumeStart ''sig'' 0)]"
  "clock sig_dead = 200"
  "heap sig_dead 0 =
     \<lparr>name = ''sig'', process = \<lparr>child_pid = 3426, killed = False, exitCode = None,
                                   listening = False\<rparr>,
      pid = 3426, startTime = 0, state = STARTING, outputBuffer = createOutputBuffer\<rparr>"
  by (simp_all add: sig_dead_def child_exit_def advance_def sig_started_facts Let_def)

lemma sig_sampled_facts:
  "runningProcesses sig_sampled ''sig'' = Some 0"
  "timers sig_sampled = []"
  "clock sig_sampled = 1000"
  "heap sig_sampled 0 =
     \<lparr>name = ''sig'', process = \<lparr>child_pid = 3426, killed = False, exitCode = None,
                                   listening = True\<rparr>,
      pid = 3426, startTime = 0, state = RUNNING, outputBuffer = createOutputBuffer\<rparr>"
  by (simp_all add: sig_sampled_def advance_def sig_dead_facts startDaemon_resume_def Let_def)

lemma show_3426: "show_nat 3426 = ''3426''"
  by (simp add: show_nat.simps digit_char_def)

lemma sig_later_facts:
  "runningProcesses (advance 100000 sig_sampled) ''sig'' = Some 0"
  "heap (advance 100000 sig_sampled) 0 = heap sig_sampled 0"
  by (simp_all add: advance_def sig_sampled_facts Let_def)

text \<open>
  C4. The claim holds for a child that has exited with a code or was signalled through
  \<open>kill\<close>, and fails for a child that a signal has ended in the window: \<open>exitCode\<close> is still
  \<open>null\<close> and \<open>killed\<close> is false, so the sample of \<open>startDaemon\<close> takes the dead child for
  a live one. For the daemon \<open>sig\<close>, dead 200 ms after its start, the call returns success
  with "Started daemon", the entry is marked \<open>RUNNING\<close>, no timer is left that would remove
  it, and the status query still reports a running daemon 100 seconds later.
\<close>

theorem startDaemon_misses_child_ended_by_signal:
  "fst (startDaemon (Spawned 3426) ''sig'' ''kill -9 $$'' ''/srv'' initial) = Awaiting 0 \<and>
   timers sig_started = [(1000, ResumeStart ''sig'' 0)] \<and>
   clock sig_dead = 200 \<and>
   exitCode (process (heap sig_dead 0)) = None \<and>
   \<not> killed (process (heap sig_dead 0)) \<and>
   fst (startDaemon_resume ''sig'' 0 sig_dead) =
     \<lparr>success = True,
      message = ''Started daemon '' @ quote @ ''sig'' @ quote @ '' (PID: 3426)''\<rparr> \<and>
   clock sig_sampled = 1000 \<and>
   timers sig_sampled = [] \<and>
   map_option status_state (getProcessStatus ''sig'' sig_sampled) = Some RUNNING \<and>
   isDaemonRunning ''sig'' sig_sampled \<and>
   map_option status_state (getProcessStatus ''sig'' (advance 100000 sig_sampled)) = Some RUNNING"
  by (simp add: sig_started_facts sig_dead_facts sig_sampled_facts sig_later_facts
      startDaemon_def initial_def startDaemon_resume_def getProcessStatus_def
      isDaemonRunning_def show_3426 Let_def)


section \<open>Lifecycle: the exit listener and the grace delay\<close>

lemma run_task_untouched:
  assumes "\<not> touches nm r task"
  shows "runningProcesses (run_task task s) nm = runningProcesses s nm"
    and "heap (run_task task s) r = heap s r"
proof -
  show "runningProcesses (run_task task s) nm = runningProcesses s nm"
    using assms by (cases task) (auto simp add: startDaemon_resume_def delete_def Let_def)
  show "heap (run_task task s) r = heap s r"
    using assms by (cases task) (simp_all add: startDaemon_resume_def delete_def Let_def)
qed

lemma run_task_clock_untouched:
  assumes "\<not> touches nm r task"
  shows "runningProcesses (run_task task (s\<lparr>clock := t\<rparr>)) nm = runningProcesses s nm"
    and "heap (run_task task (s\<lparr>clock := t\<rparr>)) r = heap s r"
  using assms by (simp_all add: run_task_untouched)

lemma fire_untouched:
  assumes "\<forall>(t, task) \<in> set due. \<not> touches nm r task"
  shows "runningProcesses (foldl (\<lambda>s' (t, task). run_task task (s'\<lparr>clock := t\<rparr>)) s due) nm
           = runningProcesses s nm \<and>
         heap (foldl (\<lambda>s' (t, task). run_task task (s'\<lparr>clock := t\<rparr>)) s due) r = heap s r"
  using assms
proof (induction due arbitrary: s)
  case Nil
  then show ?case by simp
next
  case (Cons x due)
  obtain t task where x: "x = (t, task)" by (cases x)
  from Cons.prems x have nt: "\<not> touches nm r task" by simp
  from Cons.prems have rest: "\<forall>(t, task) \<in> set due. \<not> touches nm r task" by simp
  show ?case
    using Cons.IH [OF rest, of "run_task task (s\<lparr>clock := t\<rparr>)"]
    by (simp add: x run_task_clock_untouched [OF nt])
qed

lemma run_task_adds_nothing:
  "runningProcesses s nm = None \<Longrightarrow> runningProcesses (run_task task s) nm = None"
  by (cases task) (simp_all add: startDaemon_resume_def delete_def Let_def)

lemma fire_adds_nothing:
  "runningProcesses s nm = None \<Longrightarrow>
   runningProcesses (foldl (\<lambda>s' (t, task). run_task task (s'\<lparr>clock := t\<rparr>)) s due) nm = None"
proof (induction due arbitrary: s)
  case Nil
  then show ?case by simp
next
  case (Cons x due)
  obtain t task where x: "x = (t, task)" by (cases x)
  have "runningProcesses (run_task task (s\<lparr>clock := t\<rparr>)) nm = None"
    using Cons.prems by (simp add: run_task_adds_nothing)
  then show ?case
    using Cons.IH by (simp add: x)
qed

lemma fire_delete:
  "(t0, DeleteEntry nm) \<in> set due \<Longrightarrow>
   runningProcesses (foldl (\<lambda>s' (t, task). run_task task (s'\<lparr>clock := t\<rparr>)) s due) nm = None"
proof (induction due arbitrary: s)
  case Nil
  then show ?case by simp
next
  case (Cons x due)
  obtain t task where x: "x = (t, task)" by (cases x)
  show ?case
  proof (cases "x = (t0, DeleteEntry nm)")
    case True
    then have "runningProcesses (run_task task (s\<lparr>clock := t\<rparr>)) nm = None"
      using x by (simp add: delete_def)
    then show ?thesis
      by (simp add: x fire_adds_nothing)
  next
    case False
    with Cons.prems have "(t0, DeleteEntry nm) \<in> set due" by simp
    then show ?thesis
      using Cons.IH by (simp add: x)
  qed
qed

lemma advance_untouched:
  assumes "\<forall>(t, task) \<in> set (timers s). t \<le> clock s + d \<longrightarrow> \<not> touches nm r task"
  shows "runningProcesses (advance d s) nm = runningProcesses s nm"
    and "heap (advance d s) r = heap s r"
proof -
  let ?due = "sort_key fst (filter (\<lambda>(t, task). t \<le> clock s + d) (timers s))"
  let ?s0 = "s\<lparr>timers := filter (\<lambda>(t, task). \<not> t \<le> clock s + d) (timers s)\<rparr>"
  have "\<forall>(t, task) \<in> set ?due. \<not> touches nm r task"
    using assms by auto
  from fire_untouched [OF this, of ?s0]
  show "runningProcesses (advance d s) nm = runningProcesses s nm"
    and "heap (advance d s) r = heap s r"
    by (simp_all add: advance_def Let_def)
qed

lemma advance_delete:
  assumes "(t0, DeleteEntry nm) \<in> set (timers s)" and "t0 \<le> clock s + d"
  shows "runningProcesses (advance d s) nm = None"
proof -
  let ?due = "sort_key fst (filter (\<lambda>(t, task). t \<le> clock s + d) (timers s))"
  let ?s0 = "s\<lparr>timers := filter (\<lambda>(t, task). \<not> t \<le> clock s + d) (timers s)\<rparr>"
  have "(t0, DeleteEntry nm) \<in> set ?due"
    using assms by simp
  from fire_delete [OF this, of ?s0]
  show ?thesis
    by (simp add: advance_def Let_def)
qed


lemma child_exit_listening:
  assumes "runningProcesses s nm = Some r" and "name (heap s r) = nm"
    and "listening (process (heap s r))"
  shows "child_exit r code signal s =
     s\<lparr>heap := (heap s)(r := (heap s r)\<lparr>process := (process (heap s r))\<lparr>exitCode := code\<rparr>,
                                        state := (if code = Some 0 then STOPPED else FAILED)\<rparr>),
       timers := timers s @ [(clock s + 5000, DeleteEntry nm)]\<rparr>"
  using assms by (simp add: child_exit_def exit_listener_def setTimeout_def Let_def)

text \<open>
  A daemon whose child is alive when sampled at the end of the liveness window is
  marked \<open>RUNNING\<close> and gets its listeners. For a tracked daemon whose listeners are
  attached, the termination of its process sets the state of the entry to \<open>STOPPED\<close>
  exactly when the exit code is 0 and to \<open>FAILED\<close> otherwise (a nonzero code, or no code
  because a signal terminated it), keeps the entry, and schedules its removal 5000 ms
  later. Until then, as long as no other due timer concerns the name or the run, status
  and logs queries find the entry in its terminal state; from 5000 ms on they report
  not-found.
\<close>

lemma exit_listener_terminal_state:
  assumes "runningProcesses s nm = Some r" and "name (heap s r) = nm"
    and "listening (process (heap s r))"
  shows "(\<not> killed (process (heap s0 r0)) \<and> exitCode (process (heap s0 r0)) = None \<longrightarrow>
            success (fst (startDaemon_resume nm0 r0 s0)) \<and>
            state (heap (snd (startDaemon_resume nm0 r0 s0)) r0) = RUNNING \<and>
            listening (process (heap (snd (startDaemon_resume nm0 r0 s0)) r0))) \<and>
         (state (heap (child_exit r code signal s) r) = STOPPED \<longleftrightarrow> code = Some 0) \<and>
         (state (heap (child_exit r code signal s) r) = FAILED \<longleftrightarrow> code \<noteq> Some 0) \<and>
         runningProcesses (child_exit r code signal s) nm = Some r \<and>
         timers (child_exit r code signal s) = timers s @ [(clock s + 5000, DeleteEntry nm)] \<and>
         clock (child_exit r code signal s) = clock s \<and>
         (\<forall>d. 0 \<le> d \<and> d < 5000 \<and>
               (\<forall>(t, task) \<in> set (timers s). t \<le> clock s + d \<longrightarrow> \<not> touches nm r task) \<longrightarrow>
            (\<exists>st. getProcessStatus nm (advance d (child_exit r code signal s)) = Some st \<and>
                   status_state st = (if code = Some 0 then STOPPED else FAILED)) \<and>
            getProcessLogs nm k (advance d (child_exit r code signal s)) \<noteq> None) \<and>
         (\<forall>d. 5000 \<le> d \<longrightarrow>
            getProcessStatus nm (advance d (child_exit r code signal s)) = None \<and>
            getProcessLogs nm k (advance d (child_exit r code signal s)) = None)"
proof -
  define s' where "s' = child_exit r code signal s"
  have eq: "s' = s\<lparr>heap := (heap s)(r := (heap s r)\<lparr>process := (process (heap s r))\<lparr>exitCode := code\<rparr>,
                                        state := (if code = Some 0 then STOPPED else FAILED)\<rparr>),
       timers := timers s @ [(clock s + 5000, DeleteEntry nm)]\<rparr>"
    unfolding s'_def using assms by (rule child_exit_listening)
  have st: "state (heap s' r) = (if code = Some 0 then STOPPED else FAILED)"
    by (simp add: eq)
  have reg: "runningProcesses s' nm = Some r"
    by (simp add: eq assms(1))
  have tm: "timers s' = timers s @ [(clock s + 5000, DeleteEntry nm)]"
    by (simp add: eq)
  have ck: "clock s' = clock s"
    by (simp add: eq)
  have during: "(\<exists>st. getProcessStatus nm (advance d s') = Some st \<and>
                   status_state st = (if code = Some 0 then STOPPED else FAILED)) \<and>
            getProcessLogs nm k (advance d s') \<noteq> None"
    if d: "0 \<le> d \<and> d < 5000 \<and>
           (\<forall>(t, task) \<in> set (timers s). t \<le> clock s + d \<longrightarrow> \<not> touches nm r task)" for d
  proof -
    have quiet: "\<forall>(t, task) \<in> set (timers s'). t \<le> clock s' + d \<longrightarrow> \<not> touches nm r task"
      using d by (auto simp add: tm ck)
    have a: "runningProcesses (advance d s') nm = Some r"
      using advance_untouched(1) [OF quiet] reg by simp
    have b: "heap (advance d s') r = heap s' r"
      using advance_untouched(2) [OF quiet] .
    show ?thesis
      using a b st by (simp add: getProcessStatus_def getProcessLogs_def Let_def)
  qed
  have after: "getProcessStatus nm (advance d s') = None \<and>
               getProcessLogs nm k (advance d s') = None" if d: "5000 \<le> d" for d
  proof -
    have "(clock s + 5000, DeleteEntry nm) \<in> set (timers s')"
      by (simp add: tm)
    moreover have "clock s + 5000 \<le> clock s' + d"
      using d by (simp add: ck)
    ultimately have "runningProcesses (advance d s') nm = None"
      by (rule advance_delete)
    then show ?thesis
      by (simp add: getProcessStatus_def getProcessLogs_def)
  qed
  have st1: "state (heap s' r) = STOPPED \<longleftrightarrow> code = Some 0"
    and st2: "state (heap s' r) = FAILED \<longleftrightarrow> code \<noteq> Some 0"
    by (simp_all add: st)
  have survivor: "\<not> killed (process (heap s0 r0)) \<and> exitCode (process (heap s0 r0)) = None \<longrightarrow>
      success (fst (startDaemon_resume nm0 r0 s0)) \<and>
      state (heap (snd (startDaemon_resume nm0 r0 s0)) r0) = RUNNING \<and>
      listening (process (heap (snd (startDaemon_resume nm0 r0 s0)) r0))"
    by (simp add: startDaemon_resume_def Let_def)
  show ?thesis
    unfolding s'_def [symmetric]
    using survivor st1 st2 reg tm ck during after by blast
qed

lemma web_stopped_facts:
  "runningProcesses web_stopped ''web'' = Some 0"
  "state (heap web_stopped 0) = STOPPED"
  "pid (heap web_stopped 0) = 4242"
  "timers web_stopped = [(6000, DeleteEntry ''web'')]"
  by (simp_all add: web_stopped_def child_exit_def exit_listener_def setTimeout_def Let_def
      web_running_entry)



lemma exit_listener_terminal_state_example:
  "\<not> killed (process (heap web_started 0)) \<and>
   exitCode (process (heap web_started 0)) = None \<and>
   state (heap (snd (startDaemon_resume ''web'' 0 web_started)) 0) = RUNNING \<and>
   runningProcesses web_running ''web'' = Some 0 \<and>
   name (heap web_running 0) = ''web'' \<and>
   listening (process (heap web_running 0)) \<and>
   state (heap web_stopped 0) = STOPPED \<and>
   state (heap (child_exit 0 (Some 1) None web_running) 0) = FAILED \<and>
   state (heap (child_exit 0 None (Some ''SIGKILL'') web_running) 0) = FAILED \<and>
   timers web_stopped = [(6000, DeleteEntry ''web'')] \<and>
   getProcessStatus ''web'' (advance 4999 web_stopped) \<noteq> None \<and>
   getProcessStatus ''web'' (advance 5000 web_stopped) = None"
proof -
  have pre: "runningProcesses web_running ''web'' = Some 0"
    "name (heap web_running 0) = ''web''"
    "listening (process (heap web_running 0))"
    by (simp_all add: web_running_entry)
  note inst = exit_listener_terminal_state [OF pre]
  have alive: "\<not> killed (process (heap web_started 0))"
    "exitCode (process (heap web_started 0)) = None"
    by (simp_all add: web_started_entry)
  have survived: "state (heap (snd (startDaemon_resume ''web'' 0 web_started)) 0) = RUNNING"
    using inst [where ?s0.0 = web_started and ?r0.0 = 0 and ?nm0.0 = "''web''"] alive
    by blast
  have stopped: "state (heap web_stopped 0) = STOPPED"
    using inst [where code = "Some 0" and signal = None and k = "Some 50"] by (simp add: web_stopped_def)
  have failed1: "state (heap (child_exit 0 (Some 1) None web_running) 0) = FAILED"
    using inst [where code = "Some 1" and signal = None and k = "Some 50"] by simp
  have failed2: "state (heap (child_exit 0 None (Some ''SIGKILL'') web_running) 0) = FAILED"
    using inst [where code = None and signal = "Some ''SIGKILL''" and k = "Some 50"] by simp
  have tm: "timers web_stopped = [(6000, DeleteEntry ''web'')]"
    using inst [where code = "Some 0" and signal = None and k = "Some 50"] by (simp add: web_stopped_def web_running_entry)
  have quiet: "\<forall>(t, task) \<in> set (timers web_running).
      t \<le> clock web_running + 4999 \<longrightarrow> \<not> touches ''web'' 0 task"
    by (simp add: web_running_entry)
  have window: "\<forall>d. 0 \<le> d \<and> d < 5000 \<and>
        (\<forall>(t, task) \<in> set (timers web_running).
            t \<le> clock web_running + d \<longrightarrow> \<not> touches ''web'' 0 task) \<longrightarrow>
        (\<exists>st. getProcessStatus ''web'' (advance d (child_exit 0 (Some 0) None web_running)) = Some st \<and>
              status_state st = (if Some (0::int) = Some 0 then STOPPED else FAILED)) \<and>
        getProcessLogs ''web'' (Some 50) (advance d (child_exit 0 (Some 0) None web_running)) \<noteq> None"
    and purge: "\<forall>d. 5000 \<le> d \<longrightarrow>
        getProcessStatus ''web'' (advance d (child_exit 0 (Some 0) None web_running)) = None \<and>
        getProcessLogs ''web'' (Some 50) (advance d (child_exit 0 (Some 0) None web_running)) = None"
    using inst [where code = "Some 0" and signal = None and k = "Some 50"] by blast+
  have during: "getProcessStatus ''web'' (advance 4999 web_stopped) \<noteq> None"
    using window [rule_format, of 4999] quiet by (auto simp add: web_stopped_def)
  have after: "getProcessStatus ''web'' (advance 5000 web_stopped) = None"
    using purge [rule_format, of 5000] by (simp add: web_stopped_def)
  from alive survived pre stopped failed1 failed2 tm during after show ?thesis by simp
qed

lemma web_running_next_ref: "next_ref web_running = Suc 0"
  by (simp add: web_running_def advance_def web_started_entry startDaemon_resume_def Let_def
      web_started_def startDaemon_def initial_def setTimeout_def)

lemma first_exited_facts:
  "runningProcesses first_exited ''web'' = Some 0"
  "timers first_exited = [(6500, DeleteEntry ''web'')]"
  "clock first_exited = 1500"
  "next_ref first_exited = Suc 0"
  "state (heap first_exited 0) = STOPPED"
  "process (heap first_exited 0) =
     \<lparr>child_pid = 4242, killed = False, exitCode = Some 0, listening = True\<rparr>"
  "pid (heap first_exited 0) = 4242"
  by (simp_all add: first_exited_def child_exit_def exit_listener_def setTimeout_def
      advance_def web_running_entry web_running_next_ref Let_def)

lemma first_stopped_facts:
  "runningProcesses first_stopped ''web'' = None"
  "timers first_stopped = [(6500, DeleteEntry ''web'')]"
  "clock first_stopped = 2000"
  "next_ref first_stopped = Suc 0"
  by (simp_all add: first_stopped_def stopDaemon_def kill_def delete_def advance_def
      first_exited_facts Let_def)

lemma second_started_facts:
  "runningProcesses second_started ''web'' = Some (Suc 0)"
  "timers second_started = [(6500, DeleteEntry ''web''), (3100, ResumeStart ''web'' (Suc 0))]"
  "clock second_started = 2100"
  "heap second_started (Suc 0) =
     \<lparr>name = ''web'', process = \<lparr>child_pid = 4343, killed = False, exitCode = None,
                                   listening = False\<rparr>,
      pid = 4343, startTime = 2100, state = STARTING, outputBuffer = createOutputBuffer\<rparr>"
  by (simp_all add: second_started_def startDaemon_def setTimeout_def advance_def
      first_stopped_facts Let_def)

lemma second_running_facts:
  "runningProcesses second_running ''web'' = Some (Suc 0)"
  "timers second_running = [(6500, DeleteEntry ''web'')]"
  "clock second_running = 3100"
  "heap second_running (Suc 0) =
     \<lparr>name = ''web'', process = \<lparr>child_pid = 4343, killed = False, exitCode = None,
                                   listening = True\<rparr>,
      pid = 4343, startTime = 2100, state = RUNNING, outputBuffer = createOutputBuffer\<rparr>"
  by (simp_all add: second_running_def advance_def second_started_facts startDaemon_resume_def
      Let_def)

lemma second_exited_facts:
  "runningProcesses second_exited ''web'' = Some (Suc 0)"
  "timers second_exited = [(6500, DeleteEntry ''web''), (9000, DeleteEntry ''web'')]"
  "clock second_exited = 4000"
  "heap second_exited (Suc 0) =
     \<lparr>name = ''web'', process = \<lparr>child_pid = 4343, killed = False, exitCode = Some 0,
                                   listening = True\<rparr>,
      pid = 4343, startTime = 2100, state = STOPPED, outputBuffer = createOutputBuffer\<rparr>"
  by (simp_all add: second_exited_def child_exit_def exit_listener_def setTimeout_def
      advance_def second_running_facts Let_def)

lemma second_purged_facts:
  "runningProcesses (advance 2499 second_exited) ''web'' = Some (Suc 0)"
  "heap (advance 2499 second_exited) (Suc 0) = heap second_exited (Suc 0)"
  "runningProcesses (advance 2500 second_exited) ''web'' = None"
  "timers (advance 2500 second_exited) = [(9000, DeleteEntry ''web'')]"
  by (simp_all add: advance_def second_exited_facts delete_def Let_def)

text \<open>
  C5. The exit listener sets the terminal state and schedules the removal 5000 ms later
  as the claim says, but the entry need not stay that long: the listener looks the entry
  up by name and the delayed delete removes by name, and the timer of an earlier run of
  the same name is never cancelled. The second run of \<open>web\<close> survived its liveness window
  and exits with code 0 at 4000 ms; its entry becomes \<open>STOPPED\<close> with a removal due at
  9000 ms. The removal left by the first run is due at 6500 ms: a status query 2499 ms
  after the exit finds the entry, and status and logs queries 2500 ms after the exit
  report not-found.
\<close>

theorem exit_listener_entry_purged_by_earlier_timer:
  "runningProcesses second_running ''web'' = Some 1 \<and>
   name (heap second_running 1) = ''web'' \<and>
   state (heap second_running 1) = RUNNING \<and>
   listening (process (heap second_running 1)) \<and>
   timers second_running = [(6500, DeleteEntry ''web'')] \<and>
   clock second_exited = 4000 \<and>
   runningProcesses second_exited ''web'' = Some 1 \<and>
   state (heap second_exited 1) = STOPPED \<and>
   timers second_exited = [(6500, DeleteEntry ''web''), (9000, DeleteEntry ''web'')] \<and>
   map_option status_state (getProcessStatus ''web'' (advance 2499 second_exited)) = Some STOPPED \<and>
   getProcessStatus ''web'' (advance 2500 second_exited) = None \<and>
   getProcessLogs ''web'' (Some 50) (advance 2500 second_exited) = None"
  by (simp add: second_running_facts second_exited_facts second_purged_facts
      getProcessStatus_def getProcessLogs_def Let_def)

section \<open>Lifecycle: a new start during the grace delay\<close>

text \<open>
  C6. The daemon \<open>web\<close> has exited with code 0 and its entry, in state \<open>STOPPED\<close>, is in
  the grace delay; \<open>isDaemonRunning\<close> is false. A new \<open>startDaemon\<close> for \<open>web\<close> is
  rejected as already running, with the pid of the run that has ended, and nothing is
  spawned.
\<close>

theorem startDaemon_rejects_restart_in_grace_window:
  "runningProcesses web_stopped ''web'' = Some 0 \<and>
   state (heap web_stopped 0) = STOPPED \<and>
   isDaemonRunning ''web'' web_stopped = False \<and>
   startDaemon (Spawned 4343) ''web'' ''npm run dev'' ''/srv'' web_stopped =
     (Done \<lparr>success = False,
            message = ''Daemon '' @ quote @ ''web'' @ quote @ '' is already running (PID: 4242)''\<rparr>,
      web_stopped)"
  by (simp add: web_stopped_facts isDaemonRunning_def startDaemon_def show_4242)

section \<open>Tool dispatch\<close>

lemma replace_only_occurrence:
  assumes "u \<notin> set rest" and "\<not> sublist (u # rest) base"
  shows "replace (u # rest) [] (base @ u # rest) = base"
  using assms(2)
proof (induction base)
  case Nil
  then show ?case by simp
next
  case (Cons b bs)
  have no: "\<not> prefix (u # rest) (b # bs @ u # rest)"
  proof
    assume "prefix (u # rest) (b # bs @ u # rest)"
    then have "prefix (u # rest) ((b # bs) @ (u # rest))" by (simp only: append_Cons)
    then consider "prefix (u # rest) (b # bs)"
      | us where "u # rest = (b # bs) @ us" "prefix us (u # rest)"
      unfolding prefix_append by blast
    then show False
    proof cases
      case 1
      then have "sublist (u # rest) (b # bs)"
        by (rule prefix_imp_sublist)
      with Cons.prems show False by simp
    next
      case 2
      show False
      proof (cases us)
        case Nil
        with 2 have "u # rest = b # bs" by simp
        with Cons.prems show False by simp
      next
        case (Cons v vs)
        with 2(2) have "v = u" by simp
        with Cons 2(1) have "u \<in> set rest" by auto
        with assms(1) show False by simp
      qed
    qed
  qed
  have "\<not> sublist (u # rest) bs"
    using Cons.prems by (simp add: sublist_Cons_right)
  then have "replace (u # rest) [] (bs @ u # rest) = bs"
    by (rule Cons.IH)
  moreover have "replace (u # rest) [] (b # (bs @ u # rest)) =
      b # replace (u # rest) [] (bs @ u # rest)"
    by (simp only: replace.simps no if_False)
  ultimately show ?case
    by (simp only: append_Cons)
qed

lemma suffix_kinds:
  "endsWith (base @ ''_start'') ''_start''"
  "endsWith (base @ ''_status'') ''_status''"
  "endsWith (base @ ''_stop'') ''_stop''"
  "endsWith (base @ ''_logs'') ''_logs''"
  "\<not> endsWith (base @ ''_status'') ''_start''"
  "\<not> endsWith (base @ ''_stop'') ''_start''"
  "\<not> endsWith (base @ ''_stop'') ''_status''"
  "\<not> endsWith (base @ ''_logs'') ''_start''"
  "\<not> endsWith (base @ ''_logs'') ''_status''"
  "\<not> endsWith (base @ ''_logs'') ''_stop''"
  by (simp_all add: endsWith_def suffix_to_prefix)


lemma strip_suffix:
  "\<not> sublist ''_start'' base \<Longrightarrow> replace ''_start'' [] (base @ ''_start'') = base"
  "\<not> sublist ''_status'' base \<Longrightarrow> replace ''_status'' [] (base @ ''_status'') = base"
  "\<not> sublist ''_stop'' base \<Longrightarrow> replace ''_stop'' [] (base @ ''_stop'') = base"
  "\<not> sublist ''_logs'' base \<Longrightarrow> replace ''_logs'' [] (base @ ''_logs'') = base"
  by (rule replace_only_occurrence; simp)+

lemma executeTool_status:
  "\<not> sublist ''_status'' base \<Longrightarrow>
   executeTool env root None (base @ ''_status'') args s =
     (Done (ToolExecutor_getProcessStatus (toISOString env) base s), s)"
  by (simp add: executeTool_def suffix_kinds strip_suffix del: replace.simps)

lemma executeTool_stop:
  "\<not> sublist ''_stop'' base \<Longrightarrow>
   executeTool env root None (base @ ''_stop'') args s =
     (Done \<lparr>tool_success = success (fst (stopDaemon (kill_result env) base s)),
            tool_output = message (fst (stopDaemon (kill_result env) base s))\<rparr>,
      snd (stopDaemon (kill_result env) base s))"
  by (simp add: executeTool_def suffix_kinds strip_suffix split_beta del: replace.simps)

lemma executeTool_logs:
  "\<not> sublist ''_logs'' base \<Longrightarrow>
   executeTool env root None (base @ ''_logs'') args s =
     (Done (ToolExecutor_getProcessLogs base
        (case args of None \<Rightarrow> 50
         | Some a \<Rightarrow> (case lines a of None \<Rightarrow> 50 | Some k \<Rightarrow> if k = 0 then 50 else k)) s), s)"
  by (simp add: executeTool_def suffix_kinds strip_suffix del: replace.simps)

lemma executeTool_start_daemon:
  "\<not> sublist ''_start'' base \<Longrightarrow> cfg_daemon cfg = Some True \<Longrightarrow>
   executeTool env root (Some cfg) (base @ ''_start'') args s =
     (case startDaemon (spawn_result env) base (cfg_command cfg) root s of
        (Done result, s') \<Rightarrow>
          (Done \<lparr>tool_success = success result, tool_output = message result\<rparr>, s')
      | (Awaiting r, s') \<Rightarrow> (Awaiting r, s'))"
  by (simp add: executeTool_def suffix_kinds strip_suffix del: replace.simps)

lemma executeTool_no_config:
  "endsWith toolName ''_start'' \<Longrightarrow>
   executeTool env root None toolName args s =
     (Done \<lparr>tool_success = False,
            tool_output = ''Configuration not found for tool: '' @ toolName\<rparr>, s)"
  by (simp add: executeTool_def)

lemma executeTool_unknown:
  "\<not> endsWith toolName ''_start'' \<Longrightarrow> \<not> endsWith toolName ''_status'' \<Longrightarrow>
   \<not> endsWith toolName ''_stop'' \<Longrightarrow> \<not> endsWith toolName ''_logs'' \<Longrightarrow>
   executeTool env root None toolName args s =
     (Done \<lparr>tool_success = False, tool_output = ''Unknown tool: '' @ toolName\<rparr>, s)"
  by (simp add: executeTool_def)

lemma executeTool_one_shot:
  "cfg_daemon cfg \<noteq> Some True \<Longrightarrow>
   executeTool env root (Some cfg) toolName args s =
     (case runCommand (exec_result env) of
        Inr result \<Rightarrow> (Done result, s)
      | Inl thrown \<Rightarrow>
          (Done \<lparr>tool_success = False, tool_output = ''Error executing tool: '' @ thrown\<rparr>, s))"
  by (cases "cfg_daemon cfg") (auto simp add: executeTool_def Let_def)

lemma executeTool_daemon_by_name:
  "cfg_daemon cfg = Some True \<Longrightarrow> \<not> endsWith toolName ''_start'' \<Longrightarrow>
   executeTool env root (Some cfg) toolName args s =
     (case startDaemon (spawn_result env) (cfg_name cfg) (cfg_command cfg) root s of
        (Done result, s') \<Rightarrow>
          (Done \<lparr>tool_success = success result, tool_output = message result\<rparr>, s')
      | (Awaiting r, s') \<Rightarrow> (Awaiting r, s'))"
  by (simp add: executeTool_def)

text \<open>
  C7, as the code has it. For an identifier made of a base name and a reserved suffix,
  where the suffix text does not occur inside the base name: without a configuration,
  \<open>_status\<close>, \<open>_stop\<close> and \<open>_logs\<close> run the status, stop and logs operation on the base name
  (\<open>_logs\<close> with the \<open>lines\<close> argument, 50 when it is absent or 0); with a daemon
  configuration, \<open>_start\<close> runs \<open>startDaemon\<close> on the base name with the configured command.
  An identifier ending in \<open>_start\<close> without a configuration fails with "Configuration not
  found", and an identifier without configuration and without reserved suffix fails with
  "Unknown tool". A supplied configuration takes precedence over the suffix rule: whatever
  the identifier is, a configuration that is not a daemon has its command run, and a
  daemon configuration under an identifier that does not end in \<open>_start\<close> is started under
  its own name.
\<close>

theorem executeTool_suffix_dispatch:
  "(\<not> sublist ''_status'' base \<longrightarrow>
      executeTool env root None (base @ ''_status'') args s =
        (Done (ToolExecutor_getProcessStatus (toISOString env) base s), s)) \<and>
   (\<not> sublist ''_stop'' base \<longrightarrow>
      executeTool env root None (base @ ''_stop'') args s =
        (Done \<lparr>tool_success = success (fst (stopDaemon (kill_result env) base s)),
               tool_output = message (fst (stopDaemon (kill_result env) base s))\<rparr>,
         snd (stopDaemon (kill_result env) base s))) \<and>
   (\<not> sublist ''_logs'' base \<longrightarrow>
      executeTool env root None (base @ ''_logs'') None s =
        (Done (ToolExecutor_getProcessLogs base 50 s), s) \<and>
      executeTool env root None (base @ ''_logs'') (Some \<lparr>lines = None\<rparr>) s =
        (Done (ToolExecutor_getProcessLogs base 50 s), s) \<and>
      executeTool env root None (base @ ''_logs'') (Some \<lparr>lines = Some 0\<rparr>) s =
        (Done (ToolExecutor_getProcessLogs base 50 s), s) \<and>
      (k \<noteq> 0 \<longrightarrow>
         executeTool env root None (base @ ''_logs'') (Some \<lparr>lines = Some k\<rparr>) s =
           (Done (ToolExecutor_getProcessLogs base k s), s))) \<and>
   (\<not> sublist ''_start'' base \<and> cfg_daemon cfg = Some True \<longrightarrow>
      executeTool env root (Some cfg) (base @ ''_start'') args s =
        (case startDaemon (spawn_result env) base (cfg_command cfg) root s of
           (Done result, s') \<Rightarrow>
             (Done \<lparr>tool_success = success result, tool_output = message result\<rparr>, s')
         | (Awaiting r, s') \<Rightarrow> (Awaiting r, s'))) \<and>
   (endsWith toolName ''_start'' \<longrightarrow>
      executeTool env root None toolName args s =
        (Done \<lparr>tool_success = False,
               tool_output = ''Configuration not found for tool: '' @ toolName\<rparr>, s)) \<and>
   (\<not> endsWith toolName ''_start'' \<and> \<not> endsWith toolName ''_status'' \<and>
    \<not> endsWith toolName ''_stop'' \<and> \<not> endsWith toolName ''_logs'' \<longrightarrow>
      executeTool env root None toolName args s =
        (Done \<lparr>tool_success = False, tool_output = ''Unknown tool: '' @ toolName\<rparr>, s)) \<and>
   (cfg_daemon cfg \<noteq> Some True \<longrightarrow>
      executeTool env root (Some cfg) toolName args s =
        (case runCommand (exec_result env) of
           Inr result \<Rightarrow> (Done result, s)
         | Inl thrown \<Rightarrow>
             (Done \<lparr>tool_success = False,
                    tool_output = ''Error executing tool: '' @ thrown\<rparr>, s))) \<and>
   (cfg_daemon cfg = Some True \<and> \<not> endsWith toolName ''_start'' \<longrightarrow>
      executeTool env root (Some cfg) toolName args s =
        (case startDaemon (spawn_result env) (cfg_name cfg) (cfg_command cfg) root s of
           (Done result, s') \<Rightarrow>
             (Done \<lparr>tool_success = success result, tool_output = message result\<rparr>, s')
         | (Awaiting r, s') \<Rightarrow> (Awaiting r, s')))"
  (is "?status \<and> ?stop \<and> ?logs \<and> ?start \<and> ?noconfig \<and> ?unknown \<and> ?oneshot \<and> ?byname")
proof -
  have 1: ?status using executeTool_status by blast
  have 2: ?stop using executeTool_stop by blast
  have 3: ?logs by (simp add: executeTool_logs)
  have 4: ?start using executeTool_start_daemon by blast
  have 5: ?noconfig using executeTool_no_config by blast
  have 6: ?unknown using executeTool_unknown by blast
  have 7: ?oneshot using executeTool_one_shot by blast
  have 8: ?byname using executeTool_daemon_by_name by blast
  from 1 2 3 4 5 6 7 8 show ?thesis by blast
qed

lemma no_suffix_in_web:
  "\<not> sublist ''_start'' ''web''" "\<not> sublist ''_status'' ''web''"
  "\<not> sublist ''_stop'' ''web''" "\<not> sublist ''_logs'' ''web''"
  by (simp_all add: sublist_code)

theorem executeTool_suffix_dispatch_witness:
  "\<not> sublist ''_status'' ''web'' \<and> \<not> sublist ''_stop'' ''web'' \<and>
   \<not> sublist ''_logs'' ''web'' \<and> \<not> sublist ''_start'' ''web'' \<and>
   cfg_daemon web_tool = Some True \<and> endsWith ''web_start'' ''_start'' \<and>
   cfg_daemon git_status_tool \<noteq> Some True \<and> \<not> endsWith ''web'' ''_start'' \<and>
   executeTool example_env ''/srv'' None ''web_status'' None web_running =
     (Done (ToolExecutor_getProcessStatus (toISOString example_env) ''web'' web_running),
      web_running) \<and>
   fst (executeTool example_env ''/srv'' None ''web_stop'' None web_running) =
     Done \<lparr>tool_success = True,
           tool_output = ''Stopped daemon '' @ quote @ ''web'' @ quote @ '' (PID: 4242)''\<rparr> \<and>
   executeTool example_env ''/srv'' None ''web_logs'' (Some \<lparr>lines = Some 5\<rparr>) web_running =
     (Done (ToolExecutor_getProcessLogs ''web'' 5 web_running), web_running) \<and>
   executeTool example_env ''/srv'' None ''web_logs'' (Some \<lparr>lines = Some 0\<rparr>) web_running =
     (Done (ToolExecutor_getProcessLogs ''web'' 50 web_running), web_running) \<and>
   fst (executeTool example_env ''/srv'' (Some web_tool) ''web_start'' None initial) = Awaiting 0 \<and>
   executeTool example_env ''/srv'' None ''web_start'' None initial =
     (Done \<lparr>tool_success = False,
            tool_output = ''Configuration not found for tool: web_start''\<rparr>, initial) \<and>
   executeTool example_env ''/srv'' None ''deploy'' None initial =
     (Done \<lparr>tool_success = False, tool_output = ''Unknown tool: deploy''\<rparr>, initial) \<and>
   executeTool example_env ''/srv'' (Some git_status_tool) ''git_status'' None initial =
     (Done \<lparr>tool_success = True, tool_output = ''On branch main''\<rparr>, initial) \<and>
   fst (executeTool example_env ''/srv'' (Some web_tool) ''web'' None initial) = Awaiting 0"
proof -
  note web = executeTool_suffix_dispatch
    [where base = "''web''" and env = example_env and root = "''/srv''" and args = None
       and s = web_running and k = 5 and cfg = web_tool and toolName = "''web_start''"]
  note fresh = executeTool_suffix_dispatch
    [where base = "''web''" and env = example_env and root = "''/srv''" and args = None
       and s = initial and k = 5 and cfg = web_tool and toolName = "''web_start''"]
  note other = executeTool_suffix_dispatch
    [where base = "''web''" and env = example_env and root = "''/srv''" and args = None
       and s = initial and k = 5 and cfg = web_tool and toolName = "''deploy''"]
  note git = executeTool_suffix_dispatch
    [where base = "''web''" and env = example_env and root = "''/srv''" and args = None
       and s = initial and k = 5 and cfg = git_status_tool and toolName = "''git_status''"]
  note named = executeTool_suffix_dispatch
    [where base = "''web''" and env = example_env and root = "''/srv''" and args = None
       and s = initial and k = 5 and cfg = web_tool and toolName = "''web''"]
  have daemon: "cfg_daemon web_tool = Some True" "cfg_daemon git_status_tool \<noteq> Some True"
    by (simp_all add: web_tool_def git_status_tool_def)
  have ends: "endsWith ''web_start'' ''_start''"
    "\<not> endsWith ''deploy'' ''_start''" "\<not> endsWith ''deploy'' ''_status''"
    "\<not> endsWith ''deploy'' ''_stop''" "\<not> endsWith ''deploy'' ''_logs''"
    "\<not> endsWith ''web'' ''_start''"
    by (simp_all add: endsWith_def suffix_to_prefix)
  have stop: "stopDaemon (kill_result example_env) ''web'' web_running =
      (\<lparr>success = True,
        message = ''Stopped daemon '' @ quote @ ''web'' @ quote @ '' (PID: 4242)''\<rparr>,
       snd (stopDaemon Delivered ''web'' web_running))"
    by (simp add: example_env_def stopDaemon_def kill_def web_running_entry show_4242)
  have start: "startDaemon (spawn_result example_env) ''web'' (cfg_command web_tool) ''/srv'' initial
      = (Awaiting 0, web_started)"
    "startDaemon (spawn_result example_env) (cfg_name web_tool) (cfg_command web_tool) ''/srv''
       initial = (Awaiting 0, web_started)"
    by (simp_all add: example_env_def web_tool_def web_started_def startDaemon_def initial_def)
  have run: "runCommand (exec_result example_env) =
      Inr \<lparr>tool_success = True, tool_output = ''On branch main''\<rparr>"
    by (simp add: example_env_def runCommand_def)
  from web no_suffix_in_web
  have a: "executeTool example_env ''/srv'' None ''web_status'' None web_running =
     (Done (ToolExecutor_getProcessStatus (toISOString example_env) ''web'' web_running),
      web_running)"
    and b: "fst (executeTool example_env ''/srv'' None ''web_stop'' None web_running) =
     Done \<lparr>tool_success = True,
           tool_output = ''Stopped daemon '' @ quote @ ''web'' @ quote @ '' (PID: 4242)''\<rparr>"
    and c: "executeTool example_env ''/srv'' None ''web_logs'' (Some \<lparr>lines = Some 5\<rparr>) web_running =
     (Done (ToolExecutor_getProcessLogs ''web'' 5 web_running), web_running)"
    and c0: "executeTool example_env ''/srv'' None ''web_logs'' (Some \<lparr>lines = Some 0\<rparr>) web_running =
     (Done (ToolExecutor_getProcessLogs ''web'' 50 web_running), web_running)"
    by (simp_all add: stop)
  from fresh no_suffix_in_web daemon ends
  have d: "fst (executeTool example_env ''/srv'' (Some web_tool) ''web_start'' None initial) = Awaiting 0"
    and e: "executeTool example_env ''/srv'' None ''web_start'' None initial =
     (Done \<lparr>tool_success = False,
            tool_output = ''Configuration not found for tool: web_start''\<rparr>, initial)"
    by (simp_all add: start)
  from other ends
  have f: "executeTool example_env ''/srv'' None ''deploy'' None initial =
     (Done \<lparr>tool_success = False, tool_output = ''Unknown tool: deploy''\<rparr>, initial)"
    by simp
  from git daemon
  have g: "executeTool example_env ''/srv'' (Some git_status_tool) ''git_status'' None initial =
     (Done \<lparr>tool_success = True, tool_output = ''On branch main''\<rparr>, initial)"
    by (simp add: run)
  from named daemon ends
  have h: "fst (executeTool example_env ''/srv'' (Some web_tool) ''web'' None initial) = Awaiting 0"
    by (simp add: start)
  from a b c c0 d e f g h no_suffix_in_web daemon ends show ?thesis by simp
qed

text \<open>
  C7 as stated fails: \<open>git_status\<close>, configured as a one-shot command, ends in \<open>_status\<close>
  and is run as a command, not as a status query on \<open>git\<close>; \<open>web_start\<close> without a
  configuration starts nothing.
\<close>

theorem executeTool_suffix_dispatch_counterexample:
  "executeTool example_env ''/srv'' (Some git_status_tool) ''git_status'' None initial =
     (Done \<lparr>tool_success = True, tool_output = ''On branch main''\<rparr>, initial) \<and>
   ToolExecutor_getProcessStatus (toISOString example_env) ''git'' initial =
     \<lparr>tool_success = False, tool_output = ''Daemon '' @ quote @ ''git'' @ quote @ '' is not running''\<rparr> \<and>
   executeTool example_env ''/srv'' None ''web_start'' None initial =
     (Done \<lparr>tool_success = False,
            tool_output = ''Configuration not found for tool: web_start''\<rparr>, initial) \<and>
   spawned initial = []"
  by (simp add: executeTool_def git_status_tool_def example_env_def runCommand_def
      ToolExecutor_getProcessStatus_def getProcessStatus_def initial_def endsWith_def
      suffix_to_prefix)

text \<open>\<open>replace\<close> removes the first occurrence of the suffix text, which need not be the
  trailing one.\<close>

lemma executeTool_replaces_first_occurrence:
  "fst (executeTool example_env ''/srv'' None ''a_stop_b_stop'' None initial) =
     Done \<lparr>tool_success = False,
           tool_output = ''Daemon '' @ quote @ ''a_b_stop'' @ quote @ '' is not running''\<rparr>"
  by (simp add: executeTool_def endsWith_def suffix_to_prefix stopDaemon_def initial_def)


section \<open>Logs\<close>

lemma slice_last:
  "1 \<le> k \<Longrightarrow> slice (- k) xs = drop (length xs - nat k) xs"
  by (simp add: slice_def Let_def max_def nat_diff_distrib')

lemma web_logged_facts:
  "runningProcesses web_logged ''web'' = Some 0"
  "stdout (outputBuffer (heap web_logged 0)) = [''listening on 3000'', ''ready'']"
  "stderr (outputBuffer (heap web_logged 0)) = []"
  by (simp_all add: web_logged_def stdout_data_def web_running_entry Let_def
      createOutputBuffer_def MAX_OUTPUT_LINES_def data_lines_def newline_def
      is_whitespace_def addLines_def addToBuffer_def)

text \<open>
  C8 as stated fails for a requested count below 1: the dispatcher turns 0 into the
  default 50, \<open>getProcessLogs\<close> itself returns every line for 0, and all but the first for
  \<open>-1\<close>.
\<close>

theorem getProcessLogs_counterexample:
  "executeTool example_env ''/srv'' None ''web_logs'' (Some \<lparr>lines = Some 0\<rparr>) web_logged =
     (Done (ToolExecutor_getProcessLogs ''web'' 50 web_logged), web_logged) \<and>
   getProcessLogs ''web'' (Some 50) web_logged =
     Some \<lparr>logs_stdout = [''listening on 3000'', ''ready''], logs_stderr = []\<rparr> \<and>
   getProcessLogs ''web'' (Some 0) web_logged =
     Some \<lparr>logs_stdout = [''listening on 3000'', ''ready''], logs_stderr = []\<rparr> \<and>
   getProcessLogs ''web'' (Some (- 1)) web_logged =
     Some \<lparr>logs_stdout = [''ready''], logs_stderr = []\<rparr>"
  by (simp add: executeTool_def endsWith_def suffix_to_prefix getProcessLogs_def
      web_logged_facts slice_def)

text \<open>
  C8, for a requested count \<open>k\<close> of at least 1. For a name with an entry, \<open>getProcessLogs\<close>
  returns the last \<open>k\<close> lines of each buffer, each stream on its own: \<open>min k n\<close> lines of a
  buffer of \<open>n\<close> lines, so fewer than \<open>k\<close> only when the buffer holds fewer. The omitted
  count is 50. For a name without entry the result is not-found.
\<close>

theorem getProcessLogs_last_lines:
  "(runningProcesses s nm = Some r \<and> 1 \<le> k \<longrightarrow>
      getProcessLogs nm (Some k) s =
        Some \<lparr>logs_stdout = drop (length (stdout (outputBuffer (heap s r))) - nat k)
                               (stdout (outputBuffer (heap s r))),
              logs_stderr = drop (length (stderr (outputBuffer (heap s r))) - nat k)
                               (stderr (outputBuffer (heap s r)))\<rparr> \<and>
      length (drop (length (stdout (outputBuffer (heap s r))) - nat k)
                (stdout (outputBuffer (heap s r))))
        = min (nat k) (length (stdout (outputBuffer (heap s r)))) \<and>
      length (drop (length (stderr (outputBuffer (heap s r))) - nat k)
                (stderr (outputBuffer (heap s r))))
        = min (nat k) (length (stderr (outputBuffer (heap s r))))) \<and>
   getProcessLogs nm None s = getProcessLogs nm (Some 50) s \<and>
   (runningProcesses s nm = None \<longrightarrow>
      getProcessLogs nm lines_arg s = None \<and>
      ToolExecutor_getProcessLogs nm n s =
        \<lparr>tool_success = False,
         tool_output = ''Daemon '' @ quote @ nm @ quote @ '' is not running or has no logs''\<rparr>)"
  (is "(?present \<longrightarrow> ?tail) \<and> ?default \<and> (?absent \<longrightarrow> ?notfound)")
proof -
  have 1: ?tail if ?present
    using that by (auto simp add: getProcessLogs_def slice_last)
  have 2: ?default
    by (simp add: getProcessLogs_def)
  have 3: ?notfound if ?absent
    using that by (simp add: getProcessLogs_def ToolExecutor_getProcessLogs_def)
  from 1 2 3 show ?thesis by blast
qed

theorem getProcessLogs_last_lines_witness:
  "runningProcesses web_logged ''web'' = Some 0 \<and> (1::int) \<le> 1 \<and>
   getProcessLogs ''web'' (Some 1) web_logged =
     Some \<lparr>logs_stdout = [''ready''], logs_stderr = []\<rparr> \<and>
   getProcessLogs ''web'' (Some 50) web_logged =
     Some \<lparr>logs_stdout = [''listening on 3000'', ''ready''], logs_stderr = []\<rparr> \<and>
   runningProcesses initial ''web'' = None \<and>
   getProcessLogs ''web'' (Some 1) initial = None"
proof -
  have absent: "runningProcesses initial ''web'' = None"
    by (simp add: initial_def)
  show ?thesis
    using getProcessLogs_last_lines [of web_logged "''web''" 0 1 "Some 1" 1]
      getProcessLogs_last_lines [of web_logged "''web''" 0 50 "Some 1" 1]
      getProcessLogs_last_lines [of initial "''web''" 0 1 "Some 1" 1]
      absent
    by (simp add: web_logged_facts)
qed

section \<open>One-shot commands\<close>

lemma logger_warning_throws:
  "logger_call ''warning'' = Inl ''logger.warning is not a function''"
  by (simp add: logger_call_def logger_levels_def)

text \<open>On success the output is stdout, followed by a section labelled \<open>Stderr:\<close> when stderr
  is not empty, and the placeholder when both are empty.\<close>

lemma runCommand_resolved:
  "runCommand (Resolved out err) =
     Inr \<lparr>tool_success = True,
          tool_output = (if out = [] \<and> err = [] then ''Command completed successfully''
                         else if err = [] then out
                         else out @ newline @ ''Stderr:'' @ newline @ err)\<rparr>"
  by (simp add: runCommand_def Let_def newline_def)

text \<open>
  C9. The claim holds on success and fails on every failure of the command: the first
  statement of the \<open>catch\<close> block of \<open>runCommand\<close> calls \<open>logger.warning\<close>, which the logger
  does not have, so \<open>runCommand\<close> is left by a \<open>TypeError\<close> whatever the rejection \<open>e\<close> is, and
  the output built from the captured stdout and stderr is never returned. For the build
  that wrote to both streams and exited with code 2, \<open>executeTool\<close> answers
  \<open>Error executing tool: logger.warning is not a function\<close>.
\<close>

theorem runCommand_failure_leaves_by_exception:
  "runCommand (Rejected e) = Inl ''logger.warning is not a function'' \<and>
   runCommand (Rejected build_failed) = Inl ''logger.warning is not a function'' \<and>
   executeTool failing_env ''/srv'' (Some build_tool) ''build_project'' None initial =
     (Done \<lparr>tool_success = False,
            tool_output = ''Error executing tool: logger.warning is not a function''\<rparr>,
      initial)"
  by (simp add: runCommand_def logger_warning_throws executeTool_def build_tool_def
      failing_env_def endsWith_def suffix_to_prefix)

end
